(* ===== verification/SRM_Prelude.thy ===== *)
theory SRM_Prelude
  imports Main
begin

text \<open>
  Shared vocabulary of the development: the errors that the Python interpreter and the
  tensor engine raise on the paths of \<open>src/model/SRM_model.py\<close>, the result type
  \<open>'a result\<close> (\<open>Inl\<close> an error, \<open>Inr\<close> a value), its bind \<open>rbind\<close>, Python list
  indexing with its \<open>IndexError\<close>, and the arithmetic of strided spatial sizes
  (\<open>down s h\<close>, the ceiling of \<open>h / s\<close>), with the lemmas the component theories
  share.  The collection \<open>shape_simps\<close> gathers the characterisations
  "\<open>f x = Inr y \<longleftrightarrow> precondition \<and> y = result\<close>" of the components, so that the
  proofs of composite modules are a \<open>simp\<close> over it.
\<close>

named_theorems shape_simps "exact characterisations of successful forward passes"

section \<open>Errors and results\<close>

text \<open>
  One constructor per exception the code can raise: Python's \<open>IndexError\<close> for
  \<open>layers[i]\<close>, and the \<open>RuntimeError\<close>/\<open>ValueError\<close> messages of the tensor engine
  (non-positive stride or kernel, wrong number of input channels, a kernel larger than
  the padded input, a pooling output of size 0, padding above half the kernel, a
  batch-norm batch of one value per channel in training mode, an empty or mismatched
  \<open>torch.cat\<close>, a non-broadcastable in-place addition, an empty interpolation input),
  and the three failures of \<open>load_state_dict\<close>.
\<close>

datatype error =
    IndexError
  | InvalidArgument
  | ChannelMismatch nat nat
  | KernelTooLarge
  | OutputSizeTooSmall
  | PadTooLarge
  | TooFewValues
  | EmptyCat
  | CatSizeMismatch
  | BroadcastMismatch
  | EmptyInput
  | MissingKey string
  | UnexpectedKey string
  | SizeMismatch string

type_synonym 'a result = "error + 'a"

definition rbind :: "'a result \<Rightarrow> ('a \<Rightarrow> 'b result) \<Rightarrow> 'b result" where
  "rbind m f = (case m of Inl e \<Rightarrow> Inl e | Inr a \<Rightarrow> f a)"

text \<open>Python's \<open>xs[i]\<close> for a non-negative index: an \<open>IndexError\<close> past the end.\<close>

definition py_index :: "'a list \<Rightarrow> nat \<Rightarrow> 'a result" where
  "py_index xs i = (if i < length xs then Inr (xs ! i) else Inl IndexError)"

text \<open>
  A convolution or pooling window of size \<open>k = 2 p + 1\<close> with padding \<open>p\<close> and stride
  \<open>s\<close> (and a \<open>1 \<times> 1\<close> window without padding) maps a spatial size \<open>h \<ge> 1\<close> to
  \<open>(h - 1) div s + 1\<close>, the ceiling of \<open>h / s\<close>.
\<close>

definition down :: "nat \<Rightarrow> nat \<Rightarrow> nat" where
  "down s h = (h - 1) div s + 1"

section \<open>Lemmas on results\<close>

lemma rbind_Inl [simp]: "rbind (Inl e) f = Inl e"
  by (simp add: rbind_def)

lemma rbind_Inr [simp]: "rbind (Inr a) f = f a"
  by (simp add: rbind_def)

lemma rbind_eq_Inr [simp]: "rbind m f = Inr b \<longleftrightarrow> (\<exists>a. m = Inr a \<and> f a = Inr b)"
  by (cases m) simp_all

lemma rbind_eq_Inl: "rbind m f = Inl e \<longleftrightarrow> m = Inl e \<or> (\<exists>a. m = Inr a \<and> f a = Inl e)"
  by (cases m) simp_all

lemma result_Inl_iff_not_Inr: "(\<exists>e. r = Inl e) \<longleftrightarrow> (\<forall>y. r \<noteq> Inr y)"
  by (cases r) simp_all

section \<open>Python list indexing\<close>

lemma py_index_eq_Inr [simp]: "py_index xs i = Inr y \<longleftrightarrow> i < length xs \<and> y = xs ! i"
  by (auto simp: py_index_def)

section \<open>Strided spatial sizes\<close>

lemma down_pos [simp]: "0 < down s h"
  by (simp add: down_def)

lemma down_neq_0 [simp]: "down s h \<noteq> 0"
  by (simp add: down_def)

lemma down_1 [simp]: "0 < h \<Longrightarrow> down 1 h = h"
  by (simp add: down_def)

lemma down_Suc_0 [simp]: "0 < h \<Longrightarrow> down (Suc 0) h = h"
  by (simp add: down_def)

lemma down_le: "0 < h \<Longrightarrow> down s h \<le> h"
  using div_le_dividend [of "h - 1" s] unfolding down_def by linarith

lemma down_down: "down a (down b h) = down (b * a) h"
  by (simp add: down_def div_mult2_eq)

lemma div_eq_iff_bounds:
  "0 < s \<Longrightarrow> (m::nat) div s = q \<longleftrightarrow> q * s \<le> m \<and> m < Suc q * s"
proof -
  assume s: "0 < s"
  have "m div s = q \<longleftrightarrow> q \<le> m div s \<and> m div s < Suc q" by auto
  also have "\<dots> \<longleftrightarrow> q * s \<le> m \<and> m < Suc q * s"
    using s by (simp add: less_eq_div_iff_mult_less_eq div_less_iff_less_mult)
  finally show ?thesis .
qed

lemma down_eq_iff:
  "0 < s \<Longrightarrow> 0 < h \<Longrightarrow> down s h = n \<longleftrightarrow> 0 < n \<and> (n - 1) * s < h \<and> h \<le> n * s"
proof -
  assume s: "0 < s" and h: "0 < h"
  have "down s h = n \<longleftrightarrow> 0 < n \<and> (h - 1) div s = n - 1"
    by (auto simp: down_def)
  also have "\<dots> \<longleftrightarrow> 0 < n \<and> (n - 1) * s \<le> h - 1 \<and> h - 1 < Suc (n - 1) * s"
    using s by (simp add: div_eq_iff_bounds)
  also have "\<dots> \<longleftrightarrow> 0 < n \<and> (n - 1) * s < h \<and> h \<le> n * s"
    using h by (cases n) auto
  finally show ?thesis .
qed

end
