(* ===== verification/Torch_Shapes.thy ===== *)
theory Torch_Shapes
  imports SRM_Prelude
begin

text \<open>
  The tensor engine as the model sees it: the shape discipline of the layers and
  functions that \<open>src/model/SRM_model.py\<close> instantiates (\<open>nn.Conv2d\<close>,
  \<open>nn.BatchNorm2d\<close>, \<open>nn.ReLU\<close>, \<open>nn.MaxPool2d\<close>, \<open>nn.AvgPool2d\<close>,
  \<open>nn.Sequential\<close>, \<open>nn.functional.interpolate\<close>, \<open>torch.cat\<close> and the in-place
  \<open>+=\<close>).  A tensor is abstracted to its rank-4 NCHW shape; each operation either
  returns the shape of its output or the error the engine raises.  The output-size
  formula is the engine's \<open>(h + 2 p - k) div s + 1\<close> (dilation 1, \<open>ceil_mode\<close> off).
  This theory is the interface that the component theories build on; it models the
  library the sources call, not code of the repository.
\<close>

record tshape =
  batch :: nat
  chans :: nat
  height :: nat
  width :: nat

text \<open>\<open>module.training\<close>: batch normalisation behaves differently in the two modes.\<close>

datatype mode = Train | Eval

text \<open>
  The layer constructors with the arguments the sources pass:
  \<open>Conv2d in_channels out_channels kernel_size stride padding bias\<close>,
  \<open>BatchNorm2d num_features\<close>, \<open>MaxPool2d kernel_size stride padding\<close> and
  \<open>AvgPool2d kernel_size stride\<close> (no padding).
\<close>

datatype layer =
    Conv2d nat nat nat nat nat bool
  | BatchNorm2d nat
  | ReLU
  | MaxPool2d nat nat nat
  | AvgPool2d nat nat

definition out_dim :: "nat \<Rightarrow> nat \<Rightarrow> nat \<Rightarrow> nat \<Rightarrow> nat" where
  "out_dim h k s p = (h + 2 * p - k) div s + 1"

definition bn_ok :: "mode \<Rightarrow> nat \<Rightarrow> nat \<Rightarrow> nat \<Rightarrow> bool" where
  "bn_ok md b h w \<longleftrightarrow> md = Eval \<or> b * h * w \<noteq> 1"

definition window_shape :: "nat \<Rightarrow> nat \<Rightarrow> nat \<Rightarrow> nat \<Rightarrow> tshape \<Rightarrow> tshape" where
  "window_shape c k s p x =
     \<lparr>batch = batch x, chans = c, height = out_dim (height x) k s p,
      width = out_dim (width x) k s p\<rparr>"

fun layer_shape :: "mode \<Rightarrow> layer \<Rightarrow> tshape \<Rightarrow> tshape result" where
  "layer_shape md (Conv2d cin cout k s p bias) x =
     (if k = 0 \<or> s = 0 then Inl InvalidArgument
      else if chans x \<noteq> cin then Inl (ChannelMismatch cin (chans x))
      else if height x + 2 * p < k \<or> width x + 2 * p < k then Inl KernelTooLarge
      else Inr (window_shape cout k s p x))"
| "layer_shape md (BatchNorm2d n) x =
     (if chans x \<noteq> n then Inl (ChannelMismatch n (chans x))
      else if \<not> bn_ok md (batch x) (height x) (width x) then Inl TooFewValues
      else Inr x)"
| "layer_shape md ReLU x = Inr x"
| "layer_shape md (MaxPool2d k s p) x =
     (if k = 0 \<or> s = 0 then Inl InvalidArgument
      else if k < 2 * p then Inl PadTooLarge
      else if height x + 2 * p < k \<or> width x + 2 * p < k then Inl OutputSizeTooSmall
      else Inr (window_shape (chans x) k s p x))"
| "layer_shape md (AvgPool2d k s) x =
     (if k = 0 \<or> s = 0 then Inl InvalidArgument
      else if height x < k \<or> width x < k then Inl OutputSizeTooSmall
      else Inr (window_shape (chans x) k s 0 x))"

text \<open>\<open>nn.Sequential\<close>: the layers in order, stopping at the first error.\<close>

fun run_seq :: "mode \<Rightarrow> layer list \<Rightarrow> tshape \<Rightarrow> tshape result" where
  "run_seq md [] x = Inr x"
| "run_seq md (l # ls) x = rbind (layer_shape md l x) (run_seq md ls)"

text \<open>
  \<open>nn.functional.interpolate(x, size=n, mode='bilinear', align_corners=True)\<close>:
  both spatial sizes become \<open>n\<close>; an empty input or output is refused.
\<close>

definition interpolate_shape :: "nat \<Rightarrow> tshape \<Rightarrow> tshape result" where
  "interpolate_shape n x =
     (if height x = 0 \<or> width x = 0 \<or> n = 0 then Inl EmptyInput
      else Inr (x\<lparr>height := n, width := n\<rparr>))"

text \<open>
  \<open>torch.cat(xs, 1)\<close>: every tensor agrees with the first in every dimension but the
  channels, which add up.
\<close>

fun cat_shape :: "tshape list \<Rightarrow> tshape result" where
  "cat_shape [] = Inl EmptyCat"
| "cat_shape (x # xs) =
     (if list_all (\<lambda>y. batch y = batch x \<and> height y = height x \<and> width y = width x) xs
      then Inr (x\<lparr>chans := sum_list (map chans (x # xs))\<rparr>)
      else Inl CatSizeMismatch)"

text \<open>
  \<open>out += r\<close>: \<open>r\<close> must broadcast to the shape of \<open>out\<close>, which the in-place
  addition cannot change: every dimension of \<open>r\<close> equals that of \<open>out\<close> or is 1.
\<close>

definition bcast_dim :: "nat \<Rightarrow> nat \<Rightarrow> bool" where
  "bcast_dim r n \<longleftrightarrow> r = n \<or> r = 1"

definition add_inplace_shape :: "tshape \<Rightarrow> tshape \<Rightarrow> tshape result" where
  "add_inplace_shape out r =
     (if bcast_dim (batch r) (batch out) \<and> bcast_dim (chans r) (chans out)
         \<and> bcast_dim (height r) (height out) \<and> bcast_dim (width r) (width out)
      then Inr out else Inl BroadcastMismatch)"

section \<open>Characterisations of the operations\<close>

text \<open>
  The windows the sources use: a \<open>k = 2 p + 1\<close> window (the \<open>3 \<times> 3\<close>, padding 1
  convolutions, the \<open>7 \<times> 7\<close>, padding 3 stem and the \<open>3 \<times> 3\<close>, padding 1 max-pool)
  and the \<open>1 \<times> 1\<close> window are \<open>down s\<close>; a \<open>k \<times> k\<close> average pool with stride
  \<open>k\<close> is \<open>div k\<close>.
\<close>

lemma out_dim_odd: "0 < h \<Longrightarrow> out_dim h (2 * p + 1) s p = down s h"
  by (simp add: out_dim_def down_def)

lemma out_dim_pool: "out_dim h k k 0 = (h - k) div k + 1"
  by (simp add: out_dim_def)

lemma out_dim_pool_exact: "0 < k \<Longrightarrow> k \<le> h \<Longrightarrow> out_dim h k k 0 = h div k"
  by (simp add: out_dim_def le_div_geq)

lemma conv_odd_shape [shape_simps]:
  "k = 2 * p + 1 \<Longrightarrow> layer_shape md (Conv2d cin cout k s p bias) x = Inr y \<longleftrightarrow>
     0 < s \<and> chans x = cin \<and> 0 < height x \<and> 0 < width x \<and>
     y = \<lparr>batch = batch x, chans = cout, height = down s (height x), width = down s (width x)\<rparr>"
  by (auto simp: window_shape_def out_dim_def down_def)

lemma bn_shape [shape_simps]:
  "layer_shape md (BatchNorm2d n) x = Inr y \<longleftrightarrow>
     chans x = n \<and> bn_ok md (batch x) (height x) (width x) \<and> y = x"
  by auto

lemma relu_shape [shape_simps]: "layer_shape md ReLU x = Inr y \<longleftrightarrow> y = x"
  by auto

lemma maxpool_odd_shape [shape_simps]:
  "k = 2 * p + 1 \<Longrightarrow> layer_shape md (MaxPool2d k s p) x = Inr y \<longleftrightarrow>
     0 < s \<and> 0 < height x \<and> 0 < width x \<and>
     y = \<lparr>batch = batch x, chans = chans x, height = down s (height x),
          width = down s (width x)\<rparr>"
  by (auto simp: window_shape_def out_dim_def down_def)

lemma avgpool_shape [shape_simps]:
  "layer_shape md (AvgPool2d k k) x = Inr y \<longleftrightarrow>
     0 < k \<and> k \<le> height x \<and> k \<le> width x \<and>
     y = \<lparr>batch = batch x, chans = chans x, height = height x div k,
          width = width x div k\<rparr>"
  by (auto simp: window_shape_def out_dim_pool_exact)

lemma run_seq_append:
  "run_seq md (ls @ ms) x = rbind (run_seq md ls x) (run_seq md ms)"
  by (induction ls arbitrary: x) (auto simp: rbind_def split: sum.splits)

lemma interpolate_shape_eq [shape_simps]:
  "interpolate_shape n x = Inr y \<longleftrightarrow>
     0 < height x \<and> 0 < width x \<and> 0 < n \<and> y = x\<lparr>height := n, width := n\<rparr>"
  by (auto simp: interpolate_shape_def)

lemma add_inplace_same_dims [shape_simps]:
  "batch r = batch out \<Longrightarrow> chans r = chans out \<Longrightarrow> height r = height out \<Longrightarrow>
   width r = width out \<Longrightarrow> add_inplace_shape out r = Inr out"
  by (simp add: add_inplace_shape_def bcast_dim_def)

lemma tshape_eta [simp]:
  "\<lparr>batch = batch x, chans = chans x, height = height x, width = width x\<rparr> = x"
  by simp

text \<open>
  Batch normalisation only fails in training mode on exactly one value per channel;
  a larger map passes whenever a smaller one does.
\<close>

text \<open>
  From here on the equations of \<open>layer_shape\<close> are unfolded only on purpose: the
  characterisations above (\<open>shape_simps\<close>) are what composite modules use.
\<close>

declare layer_shape.simps [simp del]

lemma layer_shape_ReLU [simp]: "layer_shape md ReLU x = Inr x"
  by (simp add: layer_shape.simps)

lemma bn_ok_mono:
  assumes "bn_ok md b h' w'" "h' \<le> h" "w' \<le> w" "0 < h'" "0 < w'"
  shows "bn_ok md b h w"
proof (cases "md = Eval \<or> b = 0")
  case True
  then show ?thesis by (auto simp: bn_ok_def)
next
  case False
  then have "md = Train" and b: "0 < b" by (cases md; simp)+
  with assms(1) have "b * h' * w' \<noteq> 1" by (simp add: bn_ok_def)
  moreover have "1 \<le> b * h' * w'" using b assms(4,5) by simp
  ultimately have "2 \<le> b * h' * w'" by linarith
  also have "b * h' * w' \<le> b * h * w" using assms(2,3) by (simp add: mult_le_mono)
  finally have "b * h * w \<noteq> 1" by linarith
  then show ?thesis unfolding bn_ok_def by blast
qed

lemma bn_ok_big: "1 < h \<Longrightarrow> bn_ok md b h w"
  by (cases "b = 0 \<or> w = 0") (auto simp: bn_ok_def)

end
