(* ===== verification/Bottleneck.thy ===== *)
theory Bottleneck
  imports Torch_Shapes
begin

text \<open>
  The residual unit \<open>Bottleneck\<close> of \<open>src/model/SRM_model.py\<close> (lines 8--44): its
  constructor \<open>__init__(inplanes, planes, stride=1, downsample=None)\<close> as
  \<open>bottleneck_init\<close>, which records the layers it registers, and its \<open>forward\<close> as
  \<open>bottleneck_forward\<close>, the main path \<open>conv1, bn1, relu, conv2, bn2, relu, conv3,
  bn3\<close>, the shortcut (the input, or \<open>downsample(x)\<close>), the in-place addition and the
  final \<open>relu\<close>.  The invariant \<open>wf_bottleneck\<close> says that the shortcut matches the
  main path: a block without \<open>downsample\<close> has stride 1 and \<open>inplanes = 4 planes\<close>, and
  otherwise \<open>downsample\<close> is the \<open>1 \<times> 1\<close> projection that \<open>_make_layer\<close> builds.
  Under it, the forward pass succeeds exactly on inputs with \<open>inplanes\<close> channels and a
  positive spatial size (and, in training mode, more than one value per channel at each
  batch norm), and its output has \<open>4 planes\<close> channels and spatial size
  \<open>down stride h\<close>.
\<close>

definition expansion :: nat where
  "expansion = 4"

record bottleneck =
  bt_conv1 :: layer
  bt_bn1 :: layer
  bt_conv2 :: layer
  bt_bn2 :: layer
  bt_conv3 :: layer
  bt_bn3 :: layer
  bt_relu :: layer
  bt_downsample :: "layer list option"
  bt_stride :: nat

definition bottleneck_init :: "nat \<Rightarrow> nat \<Rightarrow> nat \<Rightarrow> layer list option \<Rightarrow> bottleneck" where
  "bottleneck_init inplanes planes stride downsample =
     \<lparr>bt_conv1 = Conv2d inplanes planes 1 1 0 False,
      bt_bn1 = BatchNorm2d planes,
      bt_conv2 = Conv2d planes planes 3 stride 1 False,
      bt_bn2 = BatchNorm2d planes,
      bt_conv3 = Conv2d planes (planes * 4) 1 1 0 False,
      bt_bn3 = BatchNorm2d (planes * 4),
      bt_relu = ReLU,
      bt_downsample = downsample,
      bt_stride = stride\<rparr>"

definition bottleneck_forward :: "mode \<Rightarrow> bottleneck \<Rightarrow> tshape \<Rightarrow> tshape result" where
  "bottleneck_forward md b x =
     rbind (layer_shape md (bt_conv1 b) x) (\<lambda>out.
     rbind (layer_shape md (bt_bn1 b) out) (\<lambda>out.
     rbind (layer_shape md (bt_relu b) out) (\<lambda>out.
     rbind (layer_shape md (bt_conv2 b) out) (\<lambda>out.
     rbind (layer_shape md (bt_bn2 b) out) (\<lambda>out.
     rbind (layer_shape md (bt_relu b) out) (\<lambda>out.
     rbind (layer_shape md (bt_conv3 b) out) (\<lambda>out.
     rbind (layer_shape md (bt_bn3 b) out) (\<lambda>out.
     rbind (case bt_downsample b of None \<Rightarrow> Inr x | Some ds \<Rightarrow> run_seq md ds x) (\<lambda>residual.
     rbind (add_inplace_shape out residual) (\<lambda>out.
     layer_shape md (bt_relu b) out))))))))))"

text \<open>
  The projection shortcut of \<open>_make_layer\<close>:
  \<open>nn.Sequential(nn.Conv2d(inplanes, planes * expansion, kernel_size=1, stride=stride,
  bias=False), nn.BatchNorm2d(planes * expansion))\<close>.
\<close>

definition downsample_layers :: "nat \<Rightarrow> nat \<Rightarrow> nat \<Rightarrow> layer list" where
  "downsample_layers inplanes planes stride =
     [Conv2d inplanes (planes * expansion) 1 stride 0 False, BatchNorm2d (planes * expansion)]"

definition wf_bottleneck :: "nat \<Rightarrow> nat \<Rightarrow> bottleneck \<Rightarrow> bool" where
  "wf_bottleneck inplanes planes b \<longleftrightarrow>
     b = bottleneck_init inplanes planes (bt_stride b) (bt_downsample b) \<and>
     (case bt_downsample b of
        None \<Rightarrow> bt_stride b = 1 \<and> inplanes = planes * expansion
      | Some ds \<Rightarrow> ds = downsample_layers inplanes planes (bt_stride b))"

text \<open>The output shape of a block: \<open>4 planes\<close> channels, spatial size divided by the stride.\<close>

definition block_out :: "nat \<Rightarrow> nat \<Rightarrow> tshape \<Rightarrow> tshape" where
  "block_out planes s x =
     \<lparr>batch = batch x, chans = planes * 4, height = down s (height x), width = down s (width x)\<rparr>"

definition block_pre :: "mode \<Rightarrow> nat \<Rightarrow> nat \<Rightarrow> tshape \<Rightarrow> bool" where
  "block_pre md inplanes s x \<longleftrightarrow>
     chans x = inplanes \<and> 0 < height x \<and> 0 < width x \<and> 0 < s \<and>
     bn_ok md (batch x) (height x) (width x) \<and>
     bn_ok md (batch x) (down s (height x)) (down s (width x))"

lemma downsample_shape [shape_simps]:
  "run_seq md (downsample_layers inplanes planes s) x = Inr y \<longleftrightarrow>
     0 < s \<and> chans x = inplanes \<and> 0 < height x \<and> 0 < width x \<and>
     bn_ok md (batch x) (down s (height x)) (down s (width x)) \<and> y = block_out planes s x"
  by (auto simp: downsample_layers_def expansion_def block_out_def shape_simps)

text \<open>
  The main path alone (the eight layers before the addition), for any block that
  \<open>bottleneck_init\<close> builds.
\<close>

lemma main_path_shape:
  "bottleneck_forward md (bottleneck_init inplanes planes s ds) x = Inr y \<longleftrightarrow>
     (chans x = inplanes \<and> 0 < height x \<and> 0 < width x \<and> 0 < s \<and>
      bn_ok md (batch x) (height x) (width x) \<and>
      bn_ok md (batch x) (down s (height x)) (down s (width x)) \<and>
      (\<exists>r. (case ds of None \<Rightarrow> Inr x | Some d \<Rightarrow> run_seq md d x) = Inr r \<and>
           add_inplace_shape (block_out planes s x) r = Inr y))"
  by (auto simp: bottleneck_forward_def bottleneck_init_def block_out_def shape_simps down_down)

lemma add_block_out_self:
  "down s (height x) = height x \<Longrightarrow> down s (width x) = width x \<Longrightarrow> chans x = planes * 4 \<Longrightarrow>
   add_inplace_shape (block_out planes s x) x = Inr y \<longleftrightarrow> y = block_out planes s x"
  by (auto simp: block_out_def add_inplace_shape_def bcast_dim_def)

lemma add_block_out_block_out:
  "add_inplace_shape (block_out planes s x) (block_out planes s x) = Inr y \<longleftrightarrow>
   y = block_out planes s x"
  by (auto simp: add_inplace_shape_def bcast_dim_def)

lemma wf_bottleneck_forward:
  assumes wf: "wf_bottleneck inplanes planes b"
  shows "bottleneck_forward md b x = Inr y \<longleftrightarrow>
           block_pre md inplanes (bt_stride b) x \<and> y = block_out planes (bt_stride b) x"
proof -
  define s where "s = bt_stride b"
  define ds where "ds = bt_downsample b"
  from wf have b: "b = bottleneck_init inplanes planes s ds"
    and ok: "case ds of None \<Rightarrow> s = 1 \<and> inplanes = planes * 4
               | Some d \<Rightarrow> d = downsample_layers inplanes planes s"
    using wf unfolding wf_bottleneck_def expansion_def s_def ds_def
    by (auto split: option.splits)
  have s: "bt_stride b = s" using b by (simp add: bottleneck_init_def)
  show ?thesis
  proof (cases ds)
    case None
    with ok b s show ?thesis
      by (auto simp: main_path_shape block_pre_def add_block_out_self)
  next
    case (Some d)
    with ok b s show ?thesis
      by (auto simp: main_path_shape block_pre_def shape_simps add_block_out_block_out)
  qed
qed

text \<open>
  C3.  A well-formed bottleneck block (the residual path matches the main path) runs
  exactly on inputs with \<open>inplanes\<close> channels, a positive spatial size and a positive
  stride (in training mode also with more than one value per channel before and after
  the strided convolution); its output has \<open>4 planes\<close> channels and spatial size
  \<open>down stride h\<close>.
\<close>

theorem bottleneck_forward_shape:
  assumes wf: "wf_bottleneck inplanes planes b"
  shows "bottleneck_forward md b x = Inr y \<longleftrightarrow>
           block_pre md inplanes (bt_stride b) x \<and> y = block_out planes (bt_stride b) x"
  by (rule wf_bottleneck_forward [OF wf])

theorem bottleneck_forward_shape_witness:
  "wf_bottleneck 64 64 (bottleneck_init 64 64 1 (Some (downsample_layers 64 64 1))) \<and>
   bottleneck_forward Train (bottleneck_init 64 64 1 (Some (downsample_layers 64 64 1)))
     \<lparr>batch = 1, chans = 64, height = 96, width = 96\<rparr> =
   Inr \<lparr>batch = 1, chans = 256, height = 96, width = 96\<rparr>"
proof -
  have wf: "wf_bottleneck 64 64 (bottleneck_init 64 64 1 (Some (downsample_layers 64 64 1)))"
    by (simp add: wf_bottleneck_def bottleneck_init_def)
  show ?thesis
    using wf bottleneck_forward_shape [OF wf, of Train "\<lparr>batch = 1, chans = 64, height = 96, width = 96\<rparr>"]
    by (simp add: bottleneck_init_def block_pre_def block_out_def bn_ok_def)
qed

end
