(* ===== verification/Backbone.thy ===== *)
theory Backbone
  imports Bottleneck
begin

text \<open>
  The residual stages shared by both backbones: \<open>_make_layer\<close> (lines 81--96 in
  \<open>Stage1\<close>; lines 139--154 of \<open>Stage2\<close> are the same text and are modelled by the same
  definition) as \<open>make_layer\<close>, which returns the blocks together with the new value of
  the attribute \<open>self.inplanes\<close> it writes, and the \<open>nn.Sequential\<close> of blocks as
  \<open>run_blocks\<close>.  The invariant \<open>wf_layer\<close> states what \<open>make_layer\<close> guarantees
  of its blocks: the first one is well formed for \<open>inplanes\<close> and carries the stride,
  the others are identity-shortcut blocks of stride 1 on \<open>4 planes\<close> channels.  From it
  the stage computes the shape of a single block with that stride.
\<close>

definition make_layer :: "nat \<Rightarrow> nat \<Rightarrow> nat \<Rightarrow> nat \<Rightarrow> bottleneck list \<times> nat" where
  "make_layer inplanes planes blocks stride =
     (let downsample =
            (if stride \<noteq> 1 \<or> inplanes \<noteq> planes * expansion
             then Some (downsample_layers inplanes planes stride) else None);
          first = bottleneck_init inplanes planes stride downsample;
          inplanes' = planes * expansion
      in (first # map (\<lambda>i. bottleneck_init inplanes' planes 1 None) [1..<blocks], inplanes'))"

fun run_blocks :: "mode \<Rightarrow> bottleneck list \<Rightarrow> tshape \<Rightarrow> tshape result" where
  "run_blocks md [] x = Inr x"
| "run_blocks md (b # bs) x = rbind (bottleneck_forward md b x) (run_blocks md bs)"

definition wf_layer :: "nat \<Rightarrow> nat \<Rightarrow> nat \<Rightarrow> bottleneck list \<Rightarrow> bool" where
  "wf_layer inplanes planes stride bs \<longleftrightarrow>
     (case bs of
        [] \<Rightarrow> False
      | b # rest \<Rightarrow>
          wf_bottleneck inplanes planes b \<and> bt_stride b = stride \<and>
          list_all (\<lambda>c. wf_bottleneck (planes * expansion) planes c \<and> bt_stride c = 1) rest)"

lemma bottleneck_init_stride [simp]: "bt_stride (bottleneck_init i p s d) = s"
  by (simp add: bottleneck_init_def)

lemma bottleneck_init_downsample [simp]: "bt_downsample (bottleneck_init i p s d) = d"
  by (simp add: bottleneck_init_def)

lemma identity_block_wf: "wf_bottleneck (planes * expansion) planes (bottleneck_init (planes * expansion) planes 1 None)"
  by (simp add: wf_bottleneck_def)

lemma make_layer_inv:
  "wf_layer inplanes planes stride (fst (make_layer inplanes planes blocks stride)) \<and>
   snd (make_layer inplanes planes blocks stride) = planes * expansion"
  by (auto simp: make_layer_def Let_def wf_layer_def wf_bottleneck_def list_all_iff)

text \<open>
  C4.  \<open>_make_layer\<close> builds a well-formed stage of \<open>max 1 blocks\<close> blocks (the first
  block is appended before \<open>range(1, blocks)\<close>): its \<open>downsample\<close> guard
  (\<open>stride != 1 or self.inplanes != planes * block.expansion\<close>) gives the first block a
  projection shortcut exactly when the identity would not fit, every appended block has
  the identity shortcut, and \<open>self.inplanes\<close> becomes \<open>4 planes\<close>.
\<close>

theorem make_layer_wf:
  "wf_layer inplanes planes stride (fst (make_layer inplanes planes blocks stride)) \<and>
   length (fst (make_layer inplanes planes blocks stride)) = max 1 blocks \<and>
   (bt_downsample (hd (fst (make_layer inplanes planes blocks stride))) \<noteq> None \<longleftrightarrow>
      stride \<noteq> 1 \<or> inplanes \<noteq> planes * expansion) \<and>
   list_all (\<lambda>b. bt_downsample b = None) (tl (fst (make_layer inplanes planes blocks stride))) \<and>
   snd (make_layer inplanes planes blocks stride) = planes * expansion"
  using make_layer_inv [of inplanes planes stride blocks]
  by (auto simp: make_layer_def Let_def list_all_iff)

theorem make_layer_wf_witness:
  "wf_layer 256 128 2 (fst (make_layer 256 128 4 2)) \<and> length (fst (make_layer 256 128 4 2)) = 4 \<and>
   bt_downsample (hd (fst (make_layer 256 128 4 2))) \<noteq> None \<and>
   bt_downsample (hd (fst (make_layer 256 256 3 1))) \<noteq> None \<and>
   bt_downsample (hd (fst (make_layer 1024 256 3 1))) = None \<and>
   snd (make_layer 256 128 4 2) = 512"
  using make_layer_wf [of 256 128 2 4] make_layer_wf [of 256 256 1 3] make_layer_wf [of 1024 256 1 3]
  by (simp add: expansion_def)

lemma run_identity_blocks:
  assumes "list_all (\<lambda>c. wf_bottleneck (planes * expansion) planes c \<and> bt_stride c = 1) bs"
    and "chans x = planes * 4" "0 < height x" "0 < width x"
    and "bn_ok md (batch x) (height x) (width x)"
  shows "run_blocks md bs x = Inr x"
  using assms
proof (induction bs)
  case Nil
  then show ?case by simp
next
  case (Cons c bs)
  then have wf: "wf_bottleneck (planes * expansion) planes c" and s: "bt_stride c = 1"
    by simp_all
  have "bottleneck_forward md c x = Inr (block_out planes 1 x)"
    using Cons.prems s by (simp add: wf_bottleneck_forward [OF wf] block_pre_def expansion_def)
  moreover have "block_out planes 1 x = x"
    using Cons.prems by (simp add: block_out_def)
  ultimately show ?case using Cons by simp
qed

lemma run_wf_layer:
  assumes "wf_layer inplanes planes stride bs"
  shows "run_blocks md bs x = Inr y \<longleftrightarrow>
           block_pre md inplanes stride x \<and> y = block_out planes stride x"
proof -
  obtain b rest where bs: "bs = b # rest" and wf: "wf_bottleneck inplanes planes b"
    and s: "bt_stride b = stride"
    and rest: "list_all (\<lambda>c. wf_bottleneck (planes * expansion) planes c \<and> bt_stride c = 1) rest"
    using assms by (auto simp: wf_layer_def split: list.splits)
  have "run_blocks md rest (block_out planes stride x) = Inr (block_out planes stride x)"
    if "block_pre md inplanes stride x"
    using rest that by (intro run_identity_blocks) (auto simp: block_out_def block_pre_def)
  then show ?thesis
    using bs s by (auto simp: wf_bottleneck_forward [OF wf])
qed

lemma run_make_layer [shape_simps]:
  "run_blocks md (fst (make_layer inplanes planes blocks stride)) x = Inr y \<longleftrightarrow>
     block_pre md inplanes stride x \<and> y = block_out planes stride x"
  using make_layer_inv by (rule run_wf_layer [OF conjunct1])

lemma make_layer_snd [simp]: "snd (make_layer inplanes planes blocks stride) = planes * 4"
  by (simp add: make_layer_def Let_def expansion_def)

text \<open>
  Spatial sizes only shrink along a backbone, so the training-mode batch-norm condition
  at the smallest map implies it at every earlier one.
\<close>

lemma down_anti: "0 < s \<Longrightarrow> s \<le> t \<Longrightarrow> down t h \<le> down s h"
  by (simp add: down_def div_le_mono2)

lemma bn_ok_down_anti:
  "bn_ok md b (down t h) (down t w) \<Longrightarrow> 0 < s \<Longrightarrow> s \<le> t \<Longrightarrow> bn_ok md b (down s h) (down s w)"
  by (rule bn_ok_mono [where h' = "down t h" and w' = "down t w"]) (simp_all add: down_anti)

lemma bn_ok_down_big: "1 < down t h \<Longrightarrow> 0 < s \<Longrightarrow> s \<le> t \<Longrightarrow> bn_ok md b (down s h) w"
  using down_anti [of s t h] by (intro bn_ok_big) simp

text \<open>
  C5.  A stage built by \<open>_make_layer\<close> with any number of blocks computes the shape of
  a single strided block: it succeeds exactly under \<open>block_pre\<close> and returns
  \<open>4 planes\<close> channels at spatial size \<open>down stride h\<close>.
\<close>

theorem make_layer_shape:
  "run_blocks md (fst (make_layer inplanes planes blocks stride)) x = Inr y \<longleftrightarrow>
     block_pre md inplanes stride x \<and> y = block_out planes stride x"
  by (rule run_make_layer)

theorem make_layer_shape_witness:
  "run_blocks Train (fst (make_layer 256 128 4 2)) \<lparr>batch = 1, chans = 256, height = 96, width = 96\<rparr> =
   Inr \<lparr>batch = 1, chans = 512, height = 48, width = 48\<rparr>"
  using make_layer_shape [of Train 256 128 4 2 "\<lparr>batch = 1, chans = 256, height = 96, width = 96\<rparr>"]
  by (simp add: block_pre_def block_out_def bn_ok_def down_def)

end
