(* ===== verification/Stage1.thy ===== *)
theory Stage1
  imports Backbone
begin

text \<open>
  The detail backbone \<open>Stage1\<close> of \<open>src/model/SRM_model.py\<close> (lines 47--107).  Its
  state is the record \<open>stage1\<close>: the attribute \<open>inplanes\<close> and the registered
  layers.  \<open>stage1_init layers\<close> is \<open>__init__(block, layers)\<close> up to the call of
  \<open>_copy_params\<close> (that call is modelled with the state dictionaries in
  \<open>State_Dict\<close>): the stem, then four \<open>_make_layer\<close> calls that thread
  \<open>self.inplanes\<close> through \<open>64, 256, 512, 1024, 2048\<close> and read \<open>layers[0..3]\<close>
  (an \<open>IndexError\<close> if the list is shorter), and the two-convolution head.
  \<open>stage1_forward\<close> is \<open>forward\<close>.  On a 3-channel input the backbone returns a
  2-channel map at \<open>1/32\<close> of the input size (rounded up); for every block count.
\<close>

record stage1 =
  s1_inplanes :: nat
  s1_conv1 :: layer
  s1_bn1 :: layer
  s1_relu :: layer
  s1_maxpool :: layer
  s1_layer1 :: "bottleneck list"
  s1_layer2 :: "bottleneck list"
  s1_layer3 :: "bottleneck list"
  s1_layer4 :: "bottleneck list"
  s1_conv6 :: layer
  s1_conv7 :: layer

definition stage1_init :: "nat list \<Rightarrow> stage1 result" where
  "stage1_init layers =
     rbind (py_index layers 0) (\<lambda>n0. case make_layer 64 64 n0 1 of (layer1, inplanes) \<Rightarrow>
     rbind (py_index layers 1) (\<lambda>n1. case make_layer inplanes 128 n1 2 of (layer2, inplanes) \<Rightarrow>
     rbind (py_index layers 2) (\<lambda>n2. case make_layer inplanes 256 n2 2 of (layer3, inplanes) \<Rightarrow>
     rbind (py_index layers 3) (\<lambda>n3. case make_layer inplanes 512 n3 2 of (layer4, inplanes) \<Rightarrow>
     Inr \<lparr>s1_inplanes = inplanes,
          s1_conv1 = Conv2d 3 64 7 2 3 False,
          s1_bn1 = BatchNorm2d 64,
          s1_relu = ReLU,
          s1_maxpool = MaxPool2d 3 2 1,
          s1_layer1 = layer1, s1_layer2 = layer2, s1_layer3 = layer3, s1_layer4 = layer4,
          s1_conv6 = Conv2d 2048 256 3 1 1 True,
          s1_conv7 = Conv2d 256 2 3 1 1 True\<rparr>))))"

definition stage1_forward :: "mode \<Rightarrow> stage1 \<Rightarrow> tshape \<Rightarrow> tshape result" where
  "stage1_forward md s x =
     rbind (layer_shape md (s1_conv1 s) x) (\<lambda>x.
     rbind (layer_shape md (s1_bn1 s) x) (\<lambda>x.
     rbind (layer_shape md (s1_relu s) x) (\<lambda>x.
     rbind (layer_shape md (s1_maxpool s) x) (\<lambda>x.
     rbind (run_blocks md (s1_layer1 s) x) (\<lambda>x.
     rbind (run_blocks md (s1_layer2 s) x) (\<lambda>x.
     rbind (run_blocks md (s1_layer3 s) x) (\<lambda>x.
     rbind (run_blocks md (s1_layer4 s) x) (\<lambda>x.
     rbind (layer_shape md (s1_conv6 s) x) (\<lambda>x.
     layer_shape md (s1_conv7 s) x)))))))))"

lemma stage1_init_eq:
  "stage1_init layers = Inr s \<longleftrightarrow>
     3 < length layers \<and>
     s = \<lparr>s1_inplanes = 2048,
          s1_conv1 = Conv2d 3 64 7 2 3 False,
          s1_bn1 = BatchNorm2d 64,
          s1_relu = ReLU,
          s1_maxpool = MaxPool2d 3 2 1,
          s1_layer1 = fst (make_layer 64 64 (layers ! 0) 1),
          s1_layer2 = fst (make_layer 256 128 (layers ! 1) 2),
          s1_layer3 = fst (make_layer 512 256 (layers ! 2) 2),
          s1_layer4 = fst (make_layer 1024 512 (layers ! 3) 2),
          s1_conv6 = Conv2d 2048 256 3 1 1 True,
          s1_conv7 = Conv2d 256 2 3 1 1 True\<rparr>"
  by (auto simp: stage1_init_def split_def)

lemma stage1_init_error: "length layers \<le> 3 \<Longrightarrow> stage1_init layers = Inl IndexError"
  by (auto simp: stage1_init_def py_index_def split_def)

text \<open>The shape computed by the detail backbone, for any block counts.\<close>

lemma stage1_shape:
  assumes "stage1_init layers = Inr s"
  shows "stage1_forward md s x = Inr y \<longleftrightarrow>
           chans x = 3 \<and> 0 < height x \<and> 0 < width x \<and>
           bn_ok md (batch x) (down 32 (height x)) (down 32 (width x)) \<and>
           y = \<lparr>batch = batch x, chans = 2, height = down 32 (height x),
                width = down 32 (width x)\<rparr>"
  using assms
  by (auto simp: stage1_init_eq stage1_forward_def shape_simps block_pre_def block_out_def
        down_down intro: bn_ok_down_anti)

text \<open>
  C8.  The detail backbone, built with any block counts, runs exactly on 3-channel
  inputs of positive size (in training mode with more than one value per channel at
  its last batch norm) and returns a 2-channel map at \<open>1/32\<close> of each side, rounded up.
\<close>

theorem stage1_forward_shape:
  assumes "stage1_init layers = Inr s"
  shows "stage1_forward md s x = Inr y \<longleftrightarrow>
           chans x = 3 \<and> 0 < height x \<and> 0 < width x \<and>
           bn_ok md (batch x) (down 32 (height x)) (down 32 (width x)) \<and>
           y = \<lparr>batch = batch x, chans = 2, height = down 32 (height x),
                width = down 32 (width x)\<rparr>"
  using assms by (rule stage1_shape)

theorem stage1_forward_shape_witness:
  "stage1_init [3, 4, 6, 3] = Inr (projr (stage1_init [3, 4, 6, 3])) \<and>
   stage1_forward Train (projr (stage1_init [3, 4, 6, 3]))
     \<lparr>batch = 1, chans = 3, height = 384, width = 384\<rparr> =
   Inr \<lparr>batch = 1, chans = 2, height = 12, width = 12\<rparr>"
proof -
  have init: "stage1_init [3, 4, 6, 3] = Inr (projr (stage1_init [3, 4, 6, 3]))"
    by (simp add: stage1_init_def py_index_def split_def)
  have "down 32 (384::nat) = 12" by (simp add: down_def)
  with init show ?thesis
    using stage1_forward_shape [OF init, of Train "\<lparr>batch = 1, chans = 3, height = 384, width = 384\<rparr>"]
    by (simp add: bn_ok_def)
qed

end
