(* ===== verification/PPM.thy ===== *)
theory PPM
  imports Torch_Shapes
begin

text \<open>
  The pyramid pooling module \<open>PPM\<close> of \<open>src/model/SRM_model.py\<close> (lines 167--201).
  \<open>ppm_init\<close> is its constructor: four branches \<open>nn.Sequential(nn.AvgPool2d(k,
  stride=k), nn.Conv2d(1024, 512, 1))\<close> for \<open>k = 24, 12, 8, 4\<close>.  \<open>ppm_forward\<close> is
  its \<open>forward\<close>: each branch, then a bilinear resize to \<open>24 \<times> 24\<close>, and the
  concatenation of the input with the four results along the channels.  The module
  succeeds exactly on \<open>24 \<times> 24\<close> inputs with 1024 channels and then returns 3072
  channels at \<open>24 \<times> 24\<close>; smaller inputs fail in the \<open>24 \<times> 24\<close> average pool and
  larger ones in the concatenation.
\<close>

record ppm =
  ppm_block1 :: "layer list"
  ppm_block2 :: "layer list"
  ppm_block3 :: "layer list"
  ppm_block4 :: "layer list"

definition ppm_init :: ppm where
  "ppm_init =
     \<lparr>ppm_block1 = [AvgPool2d 24 24, Conv2d 1024 512 1 1 0 True],
      ppm_block2 = [AvgPool2d 12 12, Conv2d 1024 512 1 1 0 True],
      ppm_block3 = [AvgPool2d 8 8, Conv2d 1024 512 1 1 0 True],
      ppm_block4 = [AvgPool2d 4 4, Conv2d 1024 512 1 1 0 True]\<rparr>"

definition ppm_forward :: "mode \<Rightarrow> ppm \<Rightarrow> tshape \<Rightarrow> tshape result" where
  "ppm_forward md p x =
     rbind (run_seq md (ppm_block1 p) x) (\<lambda>x1.
     rbind (interpolate_shape 24 x1) (\<lambda>x1.
     rbind (run_seq md (ppm_block2 p) x) (\<lambda>x2.
     rbind (interpolate_shape 24 x2) (\<lambda>x2.
     rbind (run_seq md (ppm_block3 p) x) (\<lambda>x3.
     rbind (interpolate_shape 24 x3) (\<lambda>x3.
     rbind (run_seq md (ppm_block4 p) x) (\<lambda>x4.
     rbind (interpolate_shape 24 x4) (\<lambda>x4.
     cat_shape [x, x1, x2, x3, x4]))))))))"

text \<open>One branch: an exact \<open>k \<times> k\<close> pooling grid, then 512 channels.\<close>

lemma ppm_branch_shape [shape_simps]:
  "run_seq md [AvgPool2d k k, Conv2d 1024 512 (Suc 0) (Suc 0) 0 True] x = Inr y \<longleftrightarrow>
     0 < k \<and> k \<le> height x \<and> k \<le> width x \<and> chans x = 1024 \<and>
     y = \<lparr>batch = batch x, chans = 512, height = height x div k, width = width x div k\<rparr>"
proof -
  have "0 < k \<Longrightarrow> k \<le> h \<Longrightarrow> 0 < h div k" for h by (simp add: div_greater_zero_iff)
  then show ?thesis by (auto simp: shape_simps)
qed

lemma ppm_init_shape:
  "ppm_forward md ppm_init x = Inr y \<longleftrightarrow>
     chans x = 1024 \<and> height x = 24 \<and> width x = 24 \<and>
     y = \<lparr>batch = batch x, chans = 3072, height = 24, width = 24\<rparr>"
  by (auto simp: ppm_forward_def ppm_init_def shape_simps)

text \<open>
  C6.  The pyramid pooling module returns 3072 channels at \<open>24 \<times> 24\<close> exactly on
  inputs of 1024 channels at \<open>24 \<times> 24\<close>, and on no other input.
\<close>

theorem ppm_forward_shape:
  "ppm_forward md ppm_init x = Inr y \<longleftrightarrow>
     chans x = 1024 \<and> height x = 24 \<and> width x = 24 \<and>
     y = \<lparr>batch = batch x, chans = 3072, height = 24, width = 24\<rparr>"
  by (rule ppm_init_shape)

theorem ppm_forward_shape_witness:
  "ppm_forward Eval ppm_init \<lparr>batch = 2, chans = 1024, height = 24, width = 24\<rparr> =
   Inr \<lparr>batch = 2, chans = 3072, height = 24, width = 24\<rparr>"
  using ppm_forward_shape [of Eval "\<lparr>batch = 2, chans = 1024, height = 24, width = 24\<rparr>"] by simp

section \<open>The two ways the module fails on a wrong spatial size\<close>

lemma avgpool_too_small:
  "0 < k \<Longrightarrow> height x < k \<or> width x < k \<Longrightarrow>
   layer_shape md (AvgPool2d k k) x = Inl OutputSizeTooSmall"
  by (auto simp: layer_shape.simps)

lemma ppm_small_error:
  assumes "height x < 24 \<or> width x < 24"
  shows "ppm_forward md ppm_init x = Inl OutputSizeTooSmall"
  using assms by (simp add: ppm_forward_def ppm_init_def avgpool_too_small)

lemma ppm_branch_ok:
  "0 < k \<Longrightarrow> k \<le> height x \<Longrightarrow> k \<le> width x \<Longrightarrow> chans x = 1024 \<Longrightarrow>
   run_seq md [AvgPool2d k k, Conv2d 1024 512 (Suc 0) (Suc 0) 0 True] x =
     Inr \<lparr>batch = batch x, chans = 512, height = height x div k, width = width x div k\<rparr>"
  by (simp only: ppm_branch_shape)

lemma ppm_large_error:
  assumes "chans x = 1024" "24 \<le> height x" "24 \<le> width x" "height x \<noteq> 24 \<or> width x \<noteq> 24"
  shows "ppm_forward md ppm_init x = Inl CatSizeMismatch"
  using assms
  by (auto simp: ppm_forward_def ppm_init_def interpolate_shape_def ppm_branch_ok simp del: run_seq.simps)

text \<open>
  C7.  A 1024-channel input whose spatial size is not \<open>24 \<times> 24\<close> makes the module
  raise: \<open>OutputSizeTooSmall\<close> from the first \<open>24 \<times> 24\<close> average pool when a side is
  below 24, a \<open>torch.cat\<close> size mismatch when both sides are at least 24.
\<close>

theorem ppm_forward_errors:
  assumes "chans x = 1024"
  shows "(height x < 24 \<or> width x < 24 \<longrightarrow> ppm_forward md ppm_init x = Inl OutputSizeTooSmall) \<and>
         (24 \<le> height x \<and> 24 \<le> width x \<and> (height x \<noteq> 24 \<or> width x \<noteq> 24) \<longrightarrow>
            ppm_forward md ppm_init x = Inl CatSizeMismatch)"
  using assms ppm_small_error ppm_large_error by blast

theorem ppm_forward_errors_witness:
  "ppm_forward Train ppm_init \<lparr>batch = 1, chans = 1024, height = 23, width = 24\<rparr> = Inl OutputSizeTooSmall \<and>
   ppm_forward Train ppm_init \<lparr>batch = 1, chans = 1024, height = 25, width = 24\<rparr> = Inl CatSizeMismatch"
  using ppm_forward_errors [of "\<lparr>batch = 1, chans = 1024, height = 23, width = 24\<rparr>" Train]
    ppm_forward_errors [of "\<lparr>batch = 1, chans = 1024, height = 25, width = 24\<rparr>" Train]
  by simp

end
