(* ===== verification/Stage2.thy ===== *)
theory Stage2
  imports Backbone PPM
begin

text \<open>
  The context backbone \<open>Stage2\<close> of \<open>src/model/SRM_model.py\<close> (lines 110--164): the
  same stem and the first three \<open>_make_layer\<close> stages as \<open>Stage1\<close> (it reads
  \<open>layers[0..2]\<close> only; the fourth entry of the list it is given is never used),
  followed by a \<open>PPM\<close> in place of the head.  \<open>stage2_init\<close> is \<open>__init__\<close> up
  to the call of \<open>_copy_params\<close>, \<open>stage2_forward\<close> is \<open>forward\<close>.  The backbone
  reduces the input by 16 (rounded up) before the pyramid pooling module, which
  accepts only \<open>24 \<times> 24\<close> maps: the stage therefore runs exactly on inputs whose
  sides \<open>h\<close> satisfy \<open>down 16 h = 24\<close>, i.e. \<open>368 < h \<le> 384\<close>.
\<close>

record stage2 =
  s2_inplanes :: nat
  s2_conv1 :: layer
  s2_bn1 :: layer
  s2_relu :: layer
  s2_maxpool :: layer
  s2_layer1 :: "bottleneck list"
  s2_layer2 :: "bottleneck list"
  s2_layer3 :: "bottleneck list"
  s2_ppm :: ppm

definition stage2_init :: "nat list \<Rightarrow> stage2 result" where
  "stage2_init layers =
     rbind (py_index layers 0) (\<lambda>n0. case make_layer 64 64 n0 1 of (layer1, inplanes) \<Rightarrow>
     rbind (py_index layers 1) (\<lambda>n1. case make_layer inplanes 128 n1 2 of (layer2, inplanes) \<Rightarrow>
     rbind (py_index layers 2) (\<lambda>n2. case make_layer inplanes 256 n2 2 of (layer3, inplanes) \<Rightarrow>
     Inr \<lparr>s2_inplanes = inplanes,
          s2_conv1 = Conv2d 3 64 7 2 3 False,
          s2_bn1 = BatchNorm2d 64,
          s2_relu = ReLU,
          s2_maxpool = MaxPool2d 3 2 1,
          s2_layer1 = layer1, s2_layer2 = layer2, s2_layer3 = layer3,
          s2_ppm = ppm_init\<rparr>)))"

definition stage2_forward :: "mode \<Rightarrow> stage2 \<Rightarrow> tshape \<Rightarrow> tshape result" where
  "stage2_forward md s x =
     rbind (layer_shape md (s2_conv1 s) x) (\<lambda>x.
     rbind (layer_shape md (s2_bn1 s) x) (\<lambda>x.
     rbind (layer_shape md (s2_relu s) x) (\<lambda>x.
     rbind (layer_shape md (s2_maxpool s) x) (\<lambda>x.
     rbind (run_blocks md (s2_layer1 s) x) (\<lambda>x.
     rbind (run_blocks md (s2_layer2 s) x) (\<lambda>x.
     rbind (run_blocks md (s2_layer3 s) x) (\<lambda>x.
     ppm_forward md (s2_ppm s) x)))))))"

lemma stage2_init_eq:
  "stage2_init layers = Inr s \<longleftrightarrow>
     2 < length layers \<and>
     s = \<lparr>s2_inplanes = 1024,
          s2_conv1 = Conv2d 3 64 7 2 3 False,
          s2_bn1 = BatchNorm2d 64,
          s2_relu = ReLU,
          s2_maxpool = MaxPool2d 3 2 1,
          s2_layer1 = fst (make_layer 64 64 (layers ! 0) 1),
          s2_layer2 = fst (make_layer 256 128 (layers ! 1) 2),
          s2_layer3 = fst (make_layer 512 256 (layers ! 2) 2),
          s2_ppm = ppm_init\<rparr>"
  by (auto simp: stage2_init_def split_def)

lemma stage2_init_error: "length layers \<le> 2 \<Longrightarrow> stage2_init layers = Inl IndexError"
  by (auto simp: stage2_init_def py_index_def split_def)

text \<open>
  The backbone part of the context stage: on a 3-channel input it hands a 1024-channel
  map at \<open>1/16\<close> of the input size to the pyramid pooling module.
\<close>

lemma stage2_backbone:
  assumes "stage2_init layers = Inr s"
  shows "stage2_forward md s x = Inr y \<longleftrightarrow>
           chans x = 3 \<and> 0 < height x \<and> 0 < width x \<and>
           bn_ok md (batch x) (down 16 (height x)) (down 16 (width x)) \<and>
           ppm_forward md ppm_init
             \<lparr>batch = batch x, chans = 1024, height = down 16 (height x),
              width = down 16 (width x)\<rparr> = Inr y"
  using assms
  by (auto simp: stage2_init_eq stage2_forward_def shape_simps block_pre_def block_out_def
        down_down intro: bn_ok_down_anti)

text \<open>
  When the backbone part succeeds, the stage's result, an error included, is that of
  the pyramid pooling module on the backbone's output.
\<close>

lemma stage2_forward_ppm:
  assumes init: "stage2_init layers = Inr s"
    and pre: "chans x = 3" "0 < height x" "0 < width x"
      "bn_ok md (batch x) (down 16 (height x)) (down 16 (width x))"
  shows "stage2_forward md s x =
           ppm_forward md ppm_init
             \<lparr>batch = batch x, chans = 1024, height = down 16 (height x),
              width = down 16 (width x)\<rparr>"
proof -
  let ?at = "\<lambda>c k. \<lparr>batch = batch x, chans = c, height = down k (height x), width = down k (width x)\<rparr>"
  have bn: "bn_ok md (batch x) (down k (height x)) (down k (width x))" if "k \<in> {2, 4, 8}" for k
    using that pre(4) by (auto intro: bn_ok_down_anti)
  have s: "s2_conv1 s = Conv2d 3 64 7 2 3 False" "s2_bn1 s = BatchNorm2d 64" "s2_relu s = ReLU"
    "s2_maxpool s = MaxPool2d 3 2 1" "s2_layer1 s = fst (make_layer 64 64 (layers ! 0) 1)"
    "s2_layer2 s = fst (make_layer 256 128 (layers ! 1) 2)"
    "s2_layer3 s = fst (make_layer 512 256 (layers ! 2) 2)" "s2_ppm s = ppm_init"
    using init by (simp_all add: stage2_init_eq)
  have "layer_shape md (Conv2d 3 64 7 2 3 False) x = Inr (?at 64 2)"
    using pre by (simp add: shape_simps)
  moreover have "layer_shape md (BatchNorm2d 64) (?at 64 2) = Inr (?at 64 2)"
    using bn by (simp add: shape_simps)
  moreover have "layer_shape md (MaxPool2d 3 2 1) (?at 64 2) = Inr (?at 64 4)"
    by (simp add: shape_simps down_down)
  moreover have "run_blocks md (fst (make_layer 64 64 (layers ! 0) 1)) (?at 64 4) = Inr (?at 256 4)"
    using bn by (simp add: shape_simps block_pre_def block_out_def)
  moreover have "run_blocks md (fst (make_layer 256 128 (layers ! 1) 2)) (?at 256 4) = Inr (?at 512 8)"
    using bn by (simp add: shape_simps block_pre_def block_out_def down_down)
  moreover have "run_blocks md (fst (make_layer 512 256 (layers ! 2) 2)) (?at 512 8) = Inr (?at 1024 16)"
    using bn pre(4) by (simp add: shape_simps block_pre_def block_out_def down_down)
  ultimately show ?thesis
    by (simp add: stage2_forward_def s)
qed

lemma stage2_shape:
  assumes "stage2_init layers = Inr s"
  shows "stage2_forward md s x = Inr y \<longleftrightarrow>
           chans x = 3 \<and> 0 < height x \<and> 0 < width x \<and>
           down 16 (height x) = 24 \<and> down 16 (width x) = 24 \<and>
           y = \<lparr>batch = batch x, chans = 3072, height = 24, width = 24\<rparr>"
  using assms by (auto simp: stage2_backbone ppm_init_shape intro: bn_ok_big)

text \<open>
  C9.  The context backbone runs exactly on 3-channel inputs whose sides \<open>h\<close> satisfy
  \<open>down 16 h = 24\<close> (the pyramid pooling module's fixed \<open>24 \<times> 24\<close> grid), in either
  mode, and then returns 3072 channels at \<open>24 \<times> 24\<close>.
\<close>

theorem stage2_forward_shape:
  assumes "stage2_init layers = Inr s"
  shows "stage2_forward md s x = Inr y \<longleftrightarrow>
           chans x = 3 \<and> 0 < height x \<and> 0 < width x \<and>
           down 16 (height x) = 24 \<and> down 16 (width x) = 24 \<and>
           y = \<lparr>batch = batch x, chans = 3072, height = 24, width = 24\<rparr>"
  using assms by (rule stage2_shape)

theorem stage2_forward_shape_witness:
  "stage2_init [3, 4, 6, 3] = Inr (projr (stage2_init [3, 4, 6, 3])) \<and>
   stage2_forward Train (projr (stage2_init [3, 4, 6, 3]))
     \<lparr>batch = 1, chans = 3, height = 384, width = 384\<rparr> =
   Inr \<lparr>batch = 1, chans = 3072, height = 24, width = 24\<rparr>"
proof -
  have init: "stage2_init [3, 4, 6, 3] = Inr (projr (stage2_init [3, 4, 6, 3]))"
    by (simp add: stage2_init_def py_index_def split_def)
  have "down 16 (384::nat) = 24" by (simp add: down_def)
  with init show ?thesis
    using stage2_forward_shape [OF init, of Train "\<lparr>batch = 1, chans = 3, height = 384, width = 384\<rparr>"]
    by simp
qed

end
