(* ===== verification/SRM_Net.thy ===== *)
theory SRM_Net
  imports Stage1 Stage2
begin

text \<open>
  The top-level module \<open>SRM\<close> of \<open>src/model/SRM_model.py\<close> (lines 204--227).
  \<open>srm_init\<close> is \<open>__init__\<close>: both backbones built with the block counts
  \<open>[3, 4, 6, 3]\<close> and the four fusion convolutions.  \<open>srm_forward\<close> is
  \<open>forward\<close>: the detail stream (\<open>stage1\<close>, resized to 384 as \<open>output1\<close>), the
  context stream (\<open>stage2\<close>, \<open>conv1\<close>, \<open>conv2\<close>), the detail map resized to 24,
  the concatenation, \<open>conv6\<close>, \<open>conv7\<close> and the resize of the result to 384 as
  \<open>output2\<close>, in the order of the source, so that the first error raised is the
  model's.  The lemmas characterise the inputs on which the model runs (both sides in
  \<open>369..384\<close>), its output shapes and the error raised on every other 3-channel input.
\<close>

record srm =
  srm_stage1 :: stage1
  srm_stage2 :: stage2
  srm_conv1 :: layer
  srm_conv2 :: layer
  srm_conv6 :: layer
  srm_conv7 :: layer

definition srm_init :: "srm result" where
  "srm_init =
     rbind (stage1_init [3, 4, 6, 3]) (\<lambda>stage1.
     rbind (stage2_init [3, 4, 6, 3]) (\<lambda>stage2.
     Inr \<lparr>srm_stage1 = stage1, srm_stage2 = stage2,
          srm_conv1 = Conv2d 3072 256 3 1 1 True,
          srm_conv2 = Conv2d 256 64 3 1 1 True,
          srm_conv6 = Conv2d 66 256 3 1 1 True,
          srm_conv7 = Conv2d 256 2 3 1 1 True\<rparr>))"

definition srm_forward :: "mode \<Rightarrow> srm \<Rightarrow> tshape \<Rightarrow> (tshape \<times> tshape) result" where
  "srm_forward md m x =
     rbind (stage1_forward md (srm_stage1 m) x) (\<lambda>feature1.
     rbind (interpolate_shape 384 feature1) (\<lambda>output1.
     rbind (stage2_forward md (srm_stage2 m) x) (\<lambda>feature2.
     rbind (layer_shape md (srm_conv1 m) feature2) (\<lambda>feature2.
     rbind (layer_shape md (srm_conv2 m) feature2) (\<lambda>feature2.
     rbind (interpolate_shape 24 feature1) (\<lambda>feature1.
     rbind (cat_shape [feature1, feature2]) (\<lambda>feature.
     rbind (layer_shape md (srm_conv6 m) feature) (\<lambda>feature.
     rbind (layer_shape md (srm_conv7 m) feature) (\<lambda>feature.
     rbind (interpolate_shape 384 feature) (\<lambda>output2.
     Inr (output1, output2)))))))))))"

lemma srm_init_eq:
  "srm_init = Inr m \<longleftrightarrow>
     (\<exists>s1 s2. stage1_init [3, 4, 6, 3] = Inr s1 \<and> stage2_init [3, 4, 6, 3] = Inr s2 \<and>
        m = \<lparr>srm_stage1 = s1, srm_stage2 = s2,
             srm_conv1 = Conv2d 3072 256 3 1 1 True,
             srm_conv2 = Conv2d 256 64 3 1 1 True,
             srm_conv6 = Conv2d 66 256 3 1 1 True,
             srm_conv7 = Conv2d 256 2 3 1 1 True\<rparr>)"
  by (auto simp: srm_init_def)

lemma srm_init_Inr: "\<exists>m. srm_init = Inr m"
  by (simp add: srm_init_eq stage1_init_eq stage2_init_eq)

text \<open>\<open>down 16 h = 24\<close> is the window \<open>368 < h \<le> 384\<close>; the detail stream is then at 12.\<close>

lemma down16_eq_24: "0 < h \<Longrightarrow> down 16 h = 24 \<longleftrightarrow> 368 < h \<and> h \<le> 384"
  by (simp add: down_eq_iff)

lemma down32_of_down16: "down 16 h = 24 \<Longrightarrow> down 32 h = 12"
  using down_down [of 2 16 h] by (simp add: down_def)

lemma srm_shape:
  assumes "srm_init = Inr m"
  shows "srm_forward md m x = Inr (o1, o2) \<longleftrightarrow>
           chans x = 3 \<and> 0 < height x \<and> 0 < width x \<and>
           down 16 (height x) = 24 \<and> down 16 (width x) = 24 \<and>
           o1 = \<lparr>batch = batch x, chans = 2, height = 384, width = 384\<rparr> \<and>
           o2 = \<lparr>batch = batch x, chans = 2, height = 384, width = 384\<rparr>"
proof -
  obtain s1 s2 where s1: "stage1_init [3, 4, 6, 3] = Inr s1"
    and s2: "stage2_init [3, 4, 6, 3] = Inr s2"
    and m: "m = \<lparr>srm_stage1 = s1, srm_stage2 = s2,
             srm_conv1 = Conv2d 3072 256 3 1 1 True,
             srm_conv2 = Conv2d 256 64 3 1 1 True,
             srm_conv6 = Conv2d 66 256 3 1 1 True,
             srm_conv7 = Conv2d 256 2 3 1 1 True\<rparr>"
    using assms by (auto simp: srm_init_eq)
  show ?thesis
    by (auto simp: m srm_forward_def stage1_shape [OF s1] stage2_shape [OF s2] shape_simps
          down32_of_down16 intro: bn_ok_big)
qed

lemma down16_lt_24: "0 < h \<Longrightarrow> down 16 h < 24 \<longleftrightarrow> h \<le> 368"
  by (auto simp: down_def div_less_iff_less_mult)

lemma down16_gt_24: "0 < h \<Longrightarrow> 24 < down 16 h \<longleftrightarrow> 384 < h"
  by (auto simp: down_def less_eq_div_iff_mult_less_eq Suc_le_eq [symmetric])

text \<open>
  On a 3-channel input on which the detail stream runs, the model's result is the
  error of the pyramid pooling module whenever the context stream's map is not
  \<open>24 \<times> 24\<close>.
\<close>

lemma srm_forward_ppm_error:
  assumes init: "srm_init = Inr m"
    and x: "chans x = 3" "0 < height x" "0 < width x"
      "bn_ok md (batch x) (down 32 (height x)) (down 32 (width x))"
    and ppm: "ppm_forward md ppm_init
                \<lparr>batch = batch x, chans = 1024, height = down 16 (height x),
                 width = down 16 (width x)\<rparr> = Inl e"
  shows "srm_forward md m x = Inl e"
proof -
  obtain s1 s2 where s1: "stage1_init [3, 4, 6, 3] = Inr s1"
    and s2: "stage2_init [3, 4, 6, 3] = Inr s2"
    and m: "srm_stage1 m = s1" "srm_stage2 m = s2"
    using init by (auto simp: srm_init_eq)
  have "stage1_forward md s1 x =
          Inr \<lparr>batch = batch x, chans = 2, height = down 32 (height x), width = down 32 (width x)\<rparr>"
    using x by (simp add: stage1_shape [OF s1])
  moreover have "bn_ok md (batch x) (down 16 (height x)) (down 16 (width x))"
    using x(4) by (rule bn_ok_down_anti) simp_all
  then have "stage2_forward md s2 x = Inl e"
    using x ppm by (simp add: stage2_forward_ppm [OF s2])
  ultimately show ?thesis
    by (simp add: srm_forward_def m interpolate_shape_def)
qed


end
