(* ===== verification/State_Dict.thy ===== *)
theory State_Dict
  imports Backbone "HOL-Library.AList"
begin

text \<open>
  State dictionaries and the pretrained-weight copy of \<open>src/model/SRM_model.py\<close>.
  A state dictionary (\<open>module.state_dict()\<close>, an ordered dictionary) is an association
  list \<open>'v sdict\<close> from keys to tensors, a tensor being its size and an abstract value
  of type \<open>'v\<close>.  Its keys are the dotted paths of the registered parameters and
  buffers, in registration order: \<open>module_keys\<close> prefixes each child's keys with the
  attribute name it is registered under, \<open>seq_keys\<close> numbers the children of an
  \<open>nn.Sequential\<close>, \<open>layer_keys\<close> lists a layer's own parameters and buffers.
  \<open>copy_params\<close> is \<open>_copy_params\<close> (lines 98--107; lines 156--164 are the same
  text): the dictionary comprehension that keeps the checkpoint entries whose key the
  model has, \<open>dict.update\<close> as a fold of \<open>AList.update\<close>, and
  \<open>load_state_dict\<close> with its strict key checks and its size check.  The lemmas: the
  keys of a module are distinct when its children's names are distinct and dot-free;
  the merged dictionary has the module's keys in the module's order; the copy's result
  (C13) and its errors (C14, C15); and \<open>copy_shared_children\<close>, the copy between two
  modules sharing a prefix of children.
\<close>

record 'v tensor =
  tsize :: "nat list"
  tval :: 'v

type_synonym 'v sdict = "(string \<times> 'v tensor) list"
type_synonym keyspec = "(string \<times> nat list) list"

text \<open>Python's \<open>str(i)\<close> for the index of a child of \<open>nn.Sequential\<close>.\<close>

fun show_nat :: "nat \<Rightarrow> string" where
  "show_nat n =
     (if n < 10 then [char_of (48 + n)] else show_nat (n div 10) @ [char_of (48 + n mod 10)])"

fun read_nat_acc :: "nat \<Rightarrow> string \<Rightarrow> nat" where
  "read_nat_acc acc [] = acc"
| "read_nat_acc acc (c # cs) = read_nat_acc (10 * acc + (of_char c - 48)) cs"

definition prefix_keys :: "string \<Rightarrow> keyspec \<Rightarrow> keyspec" where
  "prefix_keys p ks = map (\<lambda>(k, sz). (p @ ''.'' @ k, sz)) ks"

definition module_keys :: "(string \<times> keyspec) list \<Rightarrow> keyspec" where
  "module_keys cs = concat (map (\<lambda>(n, ks). prefix_keys n ks) cs)"

definition seq_keys :: "('a \<Rightarrow> keyspec) \<Rightarrow> 'a list \<Rightarrow> keyspec" where
  "seq_keys f xs = module_keys (map (\<lambda>(i, x). (show_nat i, f x)) (enumerate 0 xs))"

text \<open>
  A layer's own entries: a convolution's \<open>weight\<close> (and \<open>bias\<close> unless \<open>bias=False\<close>),
  a batch norm's two parameters and three buffers.
\<close>

fun layer_keys :: "layer \<Rightarrow> keyspec" where
  "layer_keys (Conv2d cin cout k s p bias) =
     (''weight'', [cout, cin, k, k]) # (if bias then [(''bias'', [cout])] else [])"
| "layer_keys (BatchNorm2d n) =
     [(''weight'', [n]), (''bias'', [n]), (''running_mean'', [n]), (''running_var'', [n]),
      (''num_batches_tracked'', [])]"
| "layer_keys ReLU = []"
| "layer_keys (MaxPool2d k s p) = []"
| "layer_keys (AvgPool2d k s) = []"

definition bottleneck_keys :: "bottleneck \<Rightarrow> keyspec" where
  "bottleneck_keys b =
     module_keys
       ([(''conv1'', layer_keys (bt_conv1 b)), (''bn1'', layer_keys (bt_bn1 b)),
         (''conv2'', layer_keys (bt_conv2 b)), (''bn2'', layer_keys (bt_bn2 b)),
         (''conv3'', layer_keys (bt_conv3 b)), (''bn3'', layer_keys (bt_bn3 b)),
         (''relu'', layer_keys (bt_relu b))] @
        (case bt_downsample b of
           None \<Rightarrow> []
         | Some ds \<Rightarrow> [(''downsample'', seq_keys layer_keys ds)]))"

definition sdict_of :: "(string \<Rightarrow> 'v) \<Rightarrow> keyspec \<Rightarrow> 'v sdict" where
  "sdict_of val ks = map (\<lambda>(k, sz). (k, \<lparr>tsize = sz, tval = val k\<rparr>)) ks"

text \<open>
  \<open>module.load_state_dict(sd)\<close> with \<open>strict=True\<close>: one \<open>RuntimeError\<close> whose
  message lists the missing keys, then the unexpected keys, then the size mismatches;
  the model reports the first of them.  On success every registered tensor keeps its
  size and takes the value stored under its key.
\<close>

definition load_state_dict :: "'v sdict \<Rightarrow> 'v sdict \<Rightarrow> 'v sdict result" where
  "load_state_dict cur sd =
     (case filter (\<lambda>k. k \<notin> set (map fst sd)) (map fst cur) of
        k # _ \<Rightarrow> Inl (MissingKey k)
      | [] \<Rightarrow>
     (case filter (\<lambda>k. k \<notin> set (map fst cur)) (map fst sd) of
        k # _ \<Rightarrow> Inl (UnexpectedKey k)
      | [] \<Rightarrow>
     (case filter (\<lambda>(k, t). case map_of sd k of Some u \<Rightarrow> tsize u \<noteq> tsize t | None \<Rightarrow> False) cur of
        (k, _) # _ \<Rightarrow> Inl (SizeMismatch k)
      | [] \<Rightarrow>
        Inr (map (\<lambda>(k, t). (k, case map_of sd k of Some u \<Rightarrow> t\<lparr>tval := tval u\<rparr> | None \<Rightarrow> t)) cur))))"

text \<open>
  \<open>_copy_params\<close>: \<open>model_dict = self.state_dict()\<close> is the first argument, the
  checkpoint's \<open>state_dict()\<close> the second; the comprehension keeps the checkpoint
  entries whose key is in \<open>model_dict\<close>, \<open>model_dict.update(...)\<close> overwrites them in
  place, and the module loads the result.
\<close>

definition copy_params :: "'v sdict \<Rightarrow> 'v sdict \<Rightarrow> 'v sdict result" where
  "copy_params model_dict pretrained_dict =
     (let pretrained_dict = filter (\<lambda>(k, v). k \<in> set (map fst model_dict)) pretrained_dict;
          updated = foldl (\<lambda>m (k, v). AList.update k v m) model_dict pretrained_dict
      in load_state_dict model_dict updated)"

abbreviation merged_dict :: "'v sdict \<Rightarrow> 'v sdict \<Rightarrow> 'v sdict" where
  "merged_dict cur pre \<equiv>
     foldl (\<lambda>m (k, v). AList.update k v m) cur (filter (\<lambda>(k, v). k \<in> fst ` set cur) pre)"

definition wf_children :: "(string \<times> keyspec) list \<Rightarrow> bool" where
  "wf_children cs \<longleftrightarrow>
     distinct (map fst cs) \<and> list_all (\<lambda>(n, ks). CHR ''.'' \<notin> set n \<and> distinct (map fst ks)) cs"

section \<open>Keys are distinct\<close>

declare show_nat.simps [simp del]

lemma read_nat_acc_append: "read_nat_acc acc (xs @ ys) = read_nat_acc (read_nat_acc acc xs) ys"
  by (induction acc xs rule: read_nat_acc.induct) simp_all

lemma read_show_nat: "read_nat_acc acc (show_nat n) = (if n < 10 then 10 * acc + n else read_nat_acc acc (show_nat (n div 10)) * 10 + n mod 10)"
  by (subst show_nat.simps) (simp add: read_nat_acc_append)

lemma read_show_nat_0: "read_nat_acc 0 (show_nat n) = n"
proof (induction n rule: show_nat.induct)
  case (1 n)
  then show ?case
    by (cases "n < 10") (simp_all add: read_show_nat)
qed

lemma show_nat_inj: "show_nat m = show_nat n \<longleftrightarrow> m = n"
  by (metis read_show_nat_0)

lemma show_nat_digits: "c \<in> set (show_nat n) \<Longrightarrow> (48::nat) \<le> of_char c \<and> of_char c < (58::nat)"
proof (induction n rule: show_nat.induct)
  case (1 n)
  show ?case
  proof (cases "n < 10")
    case True
    with "1.prems" show ?thesis by (simp add: show_nat.simps [of n])
  next
    case False
    with "1.prems" have "c \<in> set (show_nat (n div 10)) \<or> c = char_of (48 + n mod 10)"
      by (auto simp: show_nat.simps [of n])
    with False "1.IH" show ?thesis by auto
  qed
qed

lemma dot_not_in_show_nat: "CHR ''.'' \<notin> set (show_nat n)"
  using show_nat_digits [of "CHR ''.''" n] by auto

lemma dotted_eq:
  "CHR ''.'' \<notin> set p \<Longrightarrow> CHR ''.'' \<notin> set q \<Longrightarrow>
   p @ CHR ''.'' # a = q @ CHR ''.'' # b \<longleftrightarrow> p = q \<and> a = b"
proof (induction p arbitrary: q)
  case Nil
  then show ?case by (cases q) auto
next
  case (Cons c p)
  then show ?case by (cases q) auto
qed

lemma keys_prefix_keys: "map fst (prefix_keys p ks) = map (\<lambda>k. p @ CHR ''.'' # k) (map fst ks)"
  by (simp add: prefix_keys_def split_def)

lemma keys_module_keys_Cons:
  "map fst (module_keys ((n, ks) # cs)) = map (\<lambda>k. n @ CHR ''.'' # k) (map fst ks) @ map fst (module_keys cs)"
  by (simp add: module_keys_def keys_prefix_keys)

lemma module_keys_Cons: "module_keys ((n, ks) # cs) = prefix_keys n ks @ module_keys cs"
  by (simp add: module_keys_def)

lemma in_keys_prefix_keys:
  "k \<in> fst ` set (prefix_keys p ks) \<longleftrightarrow> (\<exists>r \<in> fst ` set ks. k = p @ CHR ''.'' # r)"
  by (auto simp: prefix_keys_def split_def image_iff)

lemma in_keys_module_keys:
  "k \<in> fst ` set (module_keys cs) \<longleftrightarrow>
   (\<exists>n ks. (n, ks) \<in> set cs \<and> (\<exists>r \<in> fst ` set ks. k = n @ CHR ''.'' # r))"
proof (induction cs)
  case Nil
  then show ?case by (simp add: module_keys_def)
next
  case (Cons c cs)
  obtain n ks where c: "c = (n, ks)" by fastforce
  have "k \<in> fst ` set (module_keys (c # cs)) \<longleftrightarrow>
          (\<exists>r \<in> fst ` set ks. k = n @ CHR ''.'' # r) \<or> k \<in> fst ` set (module_keys cs)"
    by (simp only: c module_keys_Cons set_append image_Un Un_iff in_keys_prefix_keys)
  also have "\<dots> \<longleftrightarrow> (\<exists>r \<in> fst ` set ks. k = n @ CHR ''.'' # r) \<or>
      (\<exists>n ks. (n, ks) \<in> set cs \<and> (\<exists>r \<in> fst ` set ks. k = n @ CHR ''.'' # r))"
    by (simp only: Cons.IH)
  finally show ?case
    unfolding c list.set insert_iff by blast
qed

lemma distinct_module_keys:
  assumes "distinct (map fst cs)"
    and "\<forall>(n, ks) \<in> set cs. CHR ''.'' \<notin> set n \<and> distinct (map fst ks)"
  shows "distinct (map fst (module_keys cs))"
  using assms
proof (induction cs)
  case Nil
  then show ?case by (simp add: module_keys_def)
next
  case (Cons c cs)
  obtain n ks where c: "c = (n, ks)" by fastforce
  from Cons.prems c have n: "CHR ''.'' \<notin> set n" and ks: "distinct (map fst ks)"
    and notin: "n \<notin> fst ` set cs" by auto
  have inj: "inj_on (\<lambda>k. n @ CHR ''.'' # k) (set (map fst ks))"
    by (rule inj_onI) simp
  have d1: "distinct (map (\<lambda>k. n @ CHR ''.'' # k) (map fst ks))"
    by (intro distinct_map [THEN iffD2] conjI ks inj)
  from Cons c have d2: "distinct (map fst (module_keys cs))" by simp
  have disj: "n @ CHR ''.'' # r \<notin> fst ` set (module_keys cs)" for r
  proof
    assume "n @ CHR ''.'' # r \<in> fst ` set (module_keys cs)"
    then obtain n' ks' r' where "(n', ks') \<in> set cs" and "n @ CHR ''.'' # r = n' @ CHR ''.'' # r'"
      unfolding in_keys_module_keys by blast
    moreover from this(1) Cons.prems have "CHR ''.'' \<notin> set n'" by auto
    ultimately show False using n notin by (force simp: dotted_eq)
  qed
  then have d3: "set (map (\<lambda>k. n @ CHR ''.'' # k) (map fst ks)) \<inter> set (map fst (module_keys cs)) = {}"
    by auto
  show ?case
    unfolding c keys_module_keys_Cons distinct_append using d1 d2 d3 by blast
qed

lemma distinct_layer_keys: "distinct (map fst (layer_keys l))"
  by (cases l) auto

lemma distinct_seq_keys:
  assumes "\<forall>x \<in> set xs. distinct (map fst (f x))"
  shows "distinct (map fst (seq_keys f xs))"
  unfolding seq_keys_def
proof (rule distinct_module_keys)
  have "map fst (map (\<lambda>(i, x). (show_nat i, f x)) (enumerate 0 xs)) = map show_nat [0..<length xs]"
    by (rule nth_equalityI) (simp_all add: nth_enumerate_eq split_def)
  moreover have "inj_on show_nat (set [0..<length xs])"
    by (rule inj_onI) (simp add: show_nat_inj)
  ultimately show "distinct (map fst (map (\<lambda>(i, x). (show_nat i, f x)) (enumerate 0 xs)))"
    by (simp add: distinct_map)
  show "\<forall>(n, ks) \<in> set (map (\<lambda>(i, x). (show_nat i, f x)) (enumerate 0 xs)).
          CHR ''.'' \<notin> set n \<and> distinct (map fst ks)"
    using assms by (auto simp: in_set_enumerate_eq dot_not_in_show_nat)
qed

lemma distinct_bottleneck_keys: "distinct (map fst (bottleneck_keys b))"
  unfolding bottleneck_keys_def
  by (rule distinct_module_keys)
     (auto simp: distinct_layer_keys distinct_seq_keys split: option.splits)

section \<open>The pretrained copy\<close>

lemma foldl_update_keys:
  "set (map fst ps) \<subseteq> set (map fst m) \<Longrightarrow>
   map fst (foldl (\<lambda>m (k, v). AList.update k v m) m ps) = map fst m"
proof (induction ps arbitrary: m)
  case Nil
  then show ?case by simp
next
  case (Cons p ps)
  obtain k v where p: "p = (k, v)" by fastforce
  with Cons.prems have k: "k \<in> set (map fst m)" and sub: "set (map fst ps) \<subseteq> set (map fst m)"
    by auto
  have u: "map fst (AList.update k v m) = map fst m"
    using k by (simp add: update_keys)
  show ?case
    using Cons.IH [of "AList.update k v m"] sub by (simp add: p u)
qed

lemma keys_filter_sub: "set (map fst (filter (\<lambda>(k, v). k \<in> K) ps)) \<subseteq> K"
  by (induction ps) auto

lemma map_of_foldl_update:
  "distinct (map fst ps) \<Longrightarrow>
   map_of (foldl (\<lambda>m (k, v). AList.update k v m) m ps) = map_of m ++ map_of ps"
proof (induction ps arbitrary: m)
  case Nil
  then show ?case by simp
next
  case (Cons p ps)
  obtain k v where p: "p = (k, v)" by fastforce
  with Cons.prems have k: "k \<notin> dom (map_of ps)" and d: "distinct (map fst ps)"
    by (auto simp: dom_map_of_conv_image_fst)
  have "map_of (foldl (\<lambda>m (k, v). AList.update k v m) m (p # ps)) =
          map_of (AList.update k v m) ++ map_of ps"
    using Cons.IH d by (simp add: p)
  also have "\<dots> = map_of m ++ map_of (p # ps)"
    using k by (simp add: p update_conv' map_add_upd_left)
  finally show ?case .
qed

lemma map_of_filter_key:
  "map_of (filter (\<lambda>(k, v). k \<in> K) ps) k = (if k \<in> K then map_of ps k else None)"
  by (induction ps) auto

lemma distinct_filter_keys:
  "distinct (map fst ps) \<Longrightarrow> distinct (map fst (filter P ps))"
  by (induction ps) auto

lemma copy_params_merged: "copy_params cur pre = load_state_dict cur (merged_dict cur pre)"
  by (simp add: copy_params_def)

lemma merged_keys: "map fst (merged_dict cur pre) = map fst cur"
  by (rule foldl_update_keys) (simp add: keys_filter_sub [of "fst ` set cur", simplified])

lemma merged_lookup:
  "distinct (map fst pre) \<Longrightarrow>
   map_of (merged_dict cur pre) k =
     (case map_of pre k of Some u \<Rightarrow> if k \<in> fst ` set cur then Some u else map_of cur k
      | None \<Rightarrow> map_of cur k)"
  by (simp add: map_of_foldl_update distinct_filter_keys map_add_def map_of_filter_key split: option.splits)

text \<open>A dictionary with the module's keys in the module's order is loaded unless a size differs.\<close>

lemma load_same_keys:
  assumes "map fst sd = map fst cur"
  shows "load_state_dict cur sd =
           (case filter (\<lambda>(k, t). case map_of sd k of Some u \<Rightarrow> tsize u \<noteq> tsize t | None \<Rightarrow> False) cur of
              (k, _) # _ \<Rightarrow> Inl (SizeMismatch k)
            | [] \<Rightarrow> Inr (map (\<lambda>(k, t). (k, case map_of sd k of Some u \<Rightarrow> t\<lparr>tval := tval u\<rparr> | None \<Rightarrow> t)) cur))"
proof -
  have nomiss: "filter (\<lambda>k. k \<notin> set (map fst sd)) (map fst cur) = []"
    and nounexp: "filter (\<lambda>k. k \<notin> set (map fst cur)) (map fst sd) = []"
    unfolding assms by (simp_all add: filter_empty_conv)
  show ?thesis
    unfolding load_state_dict_def nomiss nounexp by simp
qed

text \<open>
  A key of the module that the checkpoint also holds is found in the merged dictionary
  with the checkpoint's entry; any other key with the module's own.
\<close>

lemma merged_own:
  assumes dc: "distinct (map fst cur)" and dp: "distinct (map fst pre)" and kt: "(k, t) \<in> set cur"
  shows "map_of (merged_dict cur pre) k = (case map_of pre k of Some u \<Rightarrow> Some u | None \<Rightarrow> Some t)"
proof -
  have "k \<in> fst ` set cur" using kt by force
  moreover have "map_of cur k = Some t" using dc kt by (rule map_of_is_SomeI)
  ultimately show ?thesis by (simp add: merged_lookup [OF dp] split: option.split)
qed

text \<open>
  The copy on dictionaries with distinct keys whose common entries agree in size: the
  model keeps its keys in their order, every key it shares with the checkpoint takes the
  checkpoint's value, and every other key keeps its own.
\<close>

lemma copy_params_eq:
  assumes dc: "distinct (map fst cur)" and dp: "distinct (map fst pre)"
    and sizes: "\<And>k t u. map_of cur k = Some t \<Longrightarrow> map_of pre k = Some u \<Longrightarrow> tsize u = tsize t"
  shows "copy_params cur pre =
           Inr (map (\<lambda>(k, t). (k, case map_of pre k of Some u \<Rightarrow> t\<lparr>tval := tval u\<rparr> | None \<Rightarrow> t)) cur)"
proof -
  let ?m = "merged_dict cur pre"
  have own: "map_of cur k = Some t" if "(k, t) \<in> set cur" for k t
    using dc that by (rule map_of_is_SomeI)
  have nosize: "filter (\<lambda>(k, t). case map_of ?m k of Some u \<Rightarrow> tsize u \<noteq> tsize t | None \<Rightarrow> False) cur = []"
  proof -
    have "\<not> (case map_of ?m k of Some u \<Rightarrow> tsize u \<noteq> tsize t | None \<Rightarrow> False)"
      if kt: "(k, t) \<in> set cur" for k t
    proof (cases "map_of pre k")
      case None
      then show ?thesis by (simp add: merged_own [OF dc dp kt])
    next
      case (Some u)
      then show ?thesis using sizes [OF own [OF kt] Some] by (simp add: merged_own [OF dc dp kt])
    qed
    then show ?thesis by (auto simp: filter_empty_conv)
  qed
  have pt: "(case map_of ?m k of Some u \<Rightarrow> t\<lparr>tval := tval u\<rparr> | None \<Rightarrow> t) =
             (case map_of pre k of Some u \<Rightarrow> t\<lparr>tval := tval u\<rparr> | None \<Rightarrow> t)"
    if kt: "(k, t) \<in> set cur" for k t
    by (simp add: merged_own [OF dc dp kt] split: option.split)
  have result: "map (\<lambda>(k, t). (k, case map_of ?m k of Some u \<Rightarrow> t\<lparr>tval := tval u\<rparr> | None \<Rightarrow> t)) cur =
      map (\<lambda>(k, t). (k, case map_of pre k of Some u \<Rightarrow> t\<lparr>tval := tval u\<rparr> | None \<Rightarrow> t)) cur"
    by (rule map_cong [OF refl]) (auto simp: pt)
  show ?thesis
    unfolding copy_params_merged load_same_keys [OF merged_keys] nosize by (simp add: result)
qed

text \<open>
  The first key of the module, in the module's order, whose checkpoint entry has another
  size is the one the copy reports.
\<close>

lemma copy_params_mismatch:
  assumes dc: "distinct (map fst cur)" and dp: "distinct (map fst pre)"
    and cur: "cur = xs @ (k, t) # ys" and u: "map_of pre k = Some u" "tsize u \<noteq> tsize t"
    and before: "\<And>k' t' u'. (k', t') \<in> set xs \<Longrightarrow> map_of pre k' = Some u' \<Longrightarrow> tsize u' = tsize t'"
  shows "copy_params cur pre = Inl (SizeMismatch k)"
proof -
  let ?m = "merged_dict cur pre"
  let ?P = "\<lambda>(k, t). case map_of ?m k of Some u \<Rightarrow> tsize u \<noteq> tsize t | None \<Rightarrow> False"
  have "\<not> ?P (k', t')" if kt: "(k', t') \<in> set xs" for k' t'
  proof -
    have kt': "(k', t') \<in> set cur" using kt cur by simp
    show ?thesis
    proof (cases "map_of pre k'")
      case None
      then show ?thesis by (simp add: merged_own [OF dc dp kt'])
    next
      case (Some u')
      then show ?thesis using before [OF kt Some] by (simp add: merged_own [OF dc dp kt'])
    qed
  qed
  then have "filter ?P xs = []" by (auto simp: filter_empty_conv)
  moreover have "?P (k, t)"
    using u merged_own [OF dc dp, of k t] cur by simp
  ultimately have "filter ?P cur = (k, t) # filter ?P ys"
    using cur by simp
  then show ?thesis
    unfolding copy_params_merged load_same_keys [OF merged_keys] by simp
qed

lemma keys_sdict_of [simp]: "map fst (sdict_of v ks) = map fst ks"
  by (simp add: sdict_of_def split_def)

lemma map_of_sdict_of:
  "map_of (sdict_of v ks) k = map_option (\<lambda>sz. \<lparr>tsize = sz, tval = v k\<rparr>) (map_of ks k)"
  by (induction ks) (auto simp: sdict_of_def)

lemma module_keys_append: "module_keys (xs @ ys) = module_keys xs @ module_keys ys"
  by (simp add: module_keys_def)

lemma map_of_module_keys_append:
  "map_of (module_keys (xs @ ys)) k =
     (case map_of (module_keys xs) k of None \<Rightarrow> map_of (module_keys ys) k | Some s \<Rightarrow> Some s)"
  by (simp add: module_keys_append map_add_def)

lemma module_keys_disjoint:
  assumes "\<forall>(n, ks) \<in> set xs. CHR ''.'' \<notin> set n" "\<forall>(n, ks) \<in> set ys. CHR ''.'' \<notin> set n"
    and "set (map fst xs) \<inter> set (map fst ys) = {}"
  shows "fst ` set (module_keys xs) \<inter> fst ` set (module_keys ys) = {}"
proof (rule equals0I)
  fix k assume "k \<in> fst ` set (module_keys xs) \<inter> fst ` set (module_keys ys)"
  then obtain n ks r n' ks' r' where n: "(n, ks) \<in> set xs" "k = n @ CHR ''.'' # r"
    and n': "(n', ks') \<in> set ys" "k = n' @ CHR ''.'' # r'"
    unfolding Int_iff in_keys_module_keys by blast
  from n(1) n'(1) assms(1,2) have "CHR ''.'' \<notin> set n" "CHR ''.'' \<notin> set n'" by auto
  with n(2) n'(2) have "n = n'" by (simp add: dotted_eq)
  with n(1) n'(1) assms(3) show False by force
qed

lemma wf_children_names: "wf_children (xs @ ys) \<Longrightarrow> \<forall>(n, ks) \<in> set ys. CHR ''.'' \<notin> set n"
  by (auto simp: wf_children_def list_all_iff)

lemma wf_children_distinct: "wf_children cs \<Longrightarrow> distinct (map fst (module_keys cs))"
  unfolding wf_children_def by (intro distinct_module_keys) (auto simp: list_all_iff)

lemma in_keys_map_of: "map_of ks k = Some s \<Longrightarrow> k \<in> fst ` set ks"
  by (auto dest!: map_of_SomeD intro: rev_image_eqI)

lemma sdict_of_cong:
  "(\<And>k. k \<in> fst ` set ks \<Longrightarrow> f k = g k) \<Longrightarrow> sdict_of f ks = sdict_of g ks"
  by (force simp: sdict_of_def intro!: map_cong)

text \<open>
  The copy into a module whose children are \<open>cs @ hs\<close> from a checkpoint whose children
  are \<open>cs @ ts\<close>, the names of \<open>hs\<close> and \<open>ts\<close> apart: the module's own children
  \<open>hs\<close> keep their initial values and every other entry takes the checkpoint's.
\<close>

lemma copy_shared_children:
  assumes wh: "wf_children (cs @ hs)" and wt: "wf_children (cs @ ts)"
    and nm: "set (map fst hs) \<inter> set (map fst ts) = {}"
  shows "copy_params (sdict_of init (module_keys (cs @ hs))) (sdict_of ckpt (module_keys (cs @ ts))) =
           Inr (sdict_of (\<lambda>k. if k \<in> fst ` set (module_keys hs) then init k else ckpt k)
                  (module_keys (cs @ hs)))"
proof -
  let ?P = "sdict_of ckpt (module_keys (cs @ ts))"
  have disj: "fst ` set (module_keys hs) \<inter> fst ` set (module_keys ts) = {}"
    by (rule module_keys_disjoint [OF wf_children_names [OF wh] wf_children_names [OF wt] nm])
  have sizes: "tsize u = tsize t"
    if t: "map_of (sdict_of init (module_keys (cs @ hs))) k = Some t"
      and u: "map_of ?P k = Some u" for k t u
  proof (cases "map_of (module_keys cs) k")
    case None
    with t u obtain s1 s2 where "map_of (module_keys hs) k = Some s1" "map_of (module_keys ts) k = Some s2"
      by (auto simp: map_of_sdict_of map_of_module_keys_append)
    with disj show ?thesis by (blast dest: in_keys_map_of)
  next
    case (Some s)
    with t u show ?thesis by (auto simp: map_of_sdict_of map_of_module_keys_append)
  qed
  have pt: "(case map_of ?P k of Some u \<Rightarrow> \<lparr>tsize = sz, tval = init k\<rparr>\<lparr>tval := tval u\<rparr>
              | None \<Rightarrow> \<lparr>tsize = sz, tval = init k\<rparr>) =
            \<lparr>tsize = sz, tval = if k \<in> fst ` set (module_keys cs) then ckpt k else init k\<rparr>"
    if ks: "(k, sz) \<in> set (module_keys (cs @ hs))" for k sz
  proof (cases "map_of (module_keys cs) k")
    case None
    then have nc: "k \<notin> fst ` set (module_keys cs)"
      by (simp add: map_of_eq_None_iff)
    with ks have "k \<in> fst ` set (module_keys hs)"
      by (force simp: module_keys_append)
    with disj have "map_of (module_keys ts) k = None"
      by (auto simp: map_of_eq_None_iff)
    with None nc show ?thesis
      by (simp add: map_of_sdict_of map_of_module_keys_append)
  next
    case (Some s)
    then show ?thesis
      by (simp add: map_of_sdict_of map_of_module_keys_append in_keys_map_of)
  qed
  have "copy_params (sdict_of init (module_keys (cs @ hs))) ?P =
          Inr (map (\<lambda>(k, t). (k, case map_of ?P k of Some u \<Rightarrow> t\<lparr>tval := tval u\<rparr> | None \<Rightarrow> t))
                 (sdict_of init (module_keys (cs @ hs))))"
    by (rule copy_params_eq [OF _ _ sizes])
       (simp_all add: wf_children_distinct [OF wh] wf_children_distinct [OF wt])
  also have "map (\<lambda>(k, t). (k, case map_of ?P k of Some u \<Rightarrow> t\<lparr>tval := tval u\<rparr> | None \<Rightarrow> t))
                 (sdict_of init (module_keys (cs @ hs))) =
             sdict_of (\<lambda>k. if k \<in> fst ` set (module_keys cs) then ckpt k else init k) (module_keys (cs @ hs))"
    unfolding sdict_of_def map_map
    by (rule map_cong [OF refl]) (clarsimp simp only: comp_def case_prod_conv pt [unfolded sdict_of_def] simp_thms)
  also have "\<dots> = sdict_of (\<lambda>k. if k \<in> fst ` set (module_keys hs) then init k else ckpt k)
                      (module_keys (cs @ hs))"
  proof (rule sdict_of_cong)
    fix k assume "k \<in> fst ` set (module_keys (cs @ hs))"
    moreover have "fst ` set (module_keys cs) \<inter> fst ` set (module_keys hs) = {}"
      using wf_children_distinct [OF wh] by (simp add: module_keys_append)
    ultimately show "(if k \<in> fst ` set (module_keys cs) then ckpt k else init k) =
        (if k \<in> fst ` set (module_keys hs) then init k else ckpt k)"
      by (auto simp: module_keys_append)
  qed
  finally show ?thesis by simp
qed


text \<open>
  C13.  \<open>_copy_params\<close> on a module and a checkpoint whose keys are distinct and whose
  common entries agree in size succeeds, keeps the module's keys in the module's order,
  gives every key the checkpoint holds the checkpoint's value and leaves every other
  entry as it was.
\<close>

theorem copy_params_functional:
  assumes "distinct (map fst cur)" "distinct (map fst pre)"
    and "\<forall>k t u. map_of cur k = Some t \<longrightarrow> map_of pre k = Some u \<longrightarrow> tsize u = tsize t"
  shows "copy_params cur pre =
           Inr (map (\<lambda>(k, t). (k, case map_of pre k of Some u \<Rightarrow> t\<lparr>tval := tval u\<rparr> | None \<Rightarrow> t)) cur)"
  using assms by (intro copy_params_eq) auto

theorem copy_params_functional_witness:
  "copy_params [(''conv.weight'', \<lparr>tsize = [2], tval = 0::nat\<rparr>), (''head.weight'', \<lparr>tsize = [1], tval = 0\<rparr>)]
               [(''conv.weight'', \<lparr>tsize = [2], tval = 5\<rparr>), (''fc.weight'', \<lparr>tsize = [3], tval = 9\<rparr>)] =
     Inr [(''conv.weight'', \<lparr>tsize = [2], tval = 5\<rparr>), (''head.weight'', \<lparr>tsize = [1], tval = 0\<rparr>)]"
proof -
  have h: "distinct (map fst [(''conv.weight'', \<lparr>tsize = [2], tval = 0::nat\<rparr>), (''head.weight'', \<lparr>tsize = [1], tval = 0\<rparr>)])"
    "distinct (map fst [(''conv.weight'', \<lparr>tsize = [2], tval = 5::nat\<rparr>), (''fc.weight'', \<lparr>tsize = [3], tval = 9\<rparr>)])"
    "\<forall>k t u. map_of [(''conv.weight'', \<lparr>tsize = [2], tval = 0::nat\<rparr>), (''head.weight'', \<lparr>tsize = [1], tval = 0\<rparr>)] k = Some t \<longrightarrow>
      map_of [(''conv.weight'', \<lparr>tsize = [2], tval = 5::nat\<rparr>), (''fc.weight'', \<lparr>tsize = [3], tval = 9\<rparr>)] k = Some u \<longrightarrow>
      tsize u = tsize t"
    by auto
  show ?thesis
    using copy_params_functional [OF h] by simp
qed

text \<open>
  C14.  \<open>_copy_params\<close> never fails with a missing or an unexpected key, whatever the
  checkpoint holds: the dictionary it loads has exactly the module's keys, in the module's
  order.  Only a size mismatch can make it fail.
\<close>

theorem copy_params_key_errors:
  "copy_params cur pre \<noteq> Inl (MissingKey k) \<and> copy_params cur pre \<noteq> Inl (UnexpectedKey k)"
  unfolding copy_params_merged load_same_keys [OF merged_keys]
  by (simp split: list.split prod.split)

text \<open>
  C15.  When the checkpoint holds a tensor of another size under one of the module's
  keys, \<open>_copy_params\<close> fails with a size mismatch naming the first such key in the
  module's order.
\<close>

theorem copy_params_size_error:
  assumes "distinct (map fst cur)" "distinct (map fst pre)"
    and "cur = xs @ (k, t) # ys" "map_of pre k = Some u" "tsize u \<noteq> tsize t"
    and "\<forall>(k', t') \<in> set xs. \<forall>u'. map_of pre k' = Some u' \<longrightarrow> tsize u' = tsize t'"
  shows "copy_params cur pre = Inl (SizeMismatch k)"
  using assms by (intro copy_params_mismatch [of cur pre xs k t ys u]) auto

theorem copy_params_size_error_witness:
  "distinct (map fst [(''conv.weight'', \<lparr>tsize = [2], tval = 0::nat\<rparr>), (''head.weight'', \<lparr>tsize = [1], tval = 0\<rparr>)]) \<and>
   distinct (map fst [(''conv.weight'', \<lparr>tsize = [3], tval = 5::nat\<rparr>)]) \<and>
   [(''conv.weight'', \<lparr>tsize = [2], tval = 0::nat\<rparr>), (''head.weight'', \<lparr>tsize = [1], tval = 0\<rparr>)] =
     [] @ (''conv.weight'', \<lparr>tsize = [2], tval = 0\<rparr>) # [(''head.weight'', \<lparr>tsize = [1], tval = 0\<rparr>)] \<and>
   map_of [(''conv.weight'', \<lparr>tsize = [3], tval = 5::nat\<rparr>)] ''conv.weight'' = Some \<lparr>tsize = [3], tval = 5\<rparr> \<and>
   tsize \<lparr>tsize = [3], tval = 5::nat\<rparr> \<noteq> tsize \<lparr>tsize = [2], tval = 0::nat\<rparr> \<and>
   copy_params [(''conv.weight'', \<lparr>tsize = [2], tval = 0::nat\<rparr>), (''head.weight'', \<lparr>tsize = [1], tval = 0\<rparr>)]
               [(''conv.weight'', \<lparr>tsize = [3], tval = 5\<rparr>)] = Inl (SizeMismatch ''conv.weight'')"
  using copy_params_size_error [of "[(''conv.weight'', \<lparr>tsize = [2], tval = 0::nat\<rparr>), (''head.weight'', \<lparr>tsize = [1], tval = 0\<rparr>)]"
      "[(''conv.weight'', \<lparr>tsize = [3], tval = 5::nat\<rparr>)]" "[]" "''conv.weight''" "\<lparr>tsize = [2], tval = 0\<rparr>"
      "[(''head.weight'', \<lparr>tsize = [1], tval = 0\<rparr>)]" "\<lparr>tsize = [3], tval = 5\<rparr>"]
  by simp

end
