(* ===== verification/ResNet50_Layout.thy ===== *)
theory ResNet50_Layout
  imports State_Dict
begin

text \<open>
  The state-dictionary layout of the checkpoint \<open>_copy_params\<close> loads,
  \<open>torchvision.models.resnet50(pretrained=True).state_dict()\<close>.  It is not code of this
  repository: it is written out here from torchvision's ResNet-50 (a \<open>7 \<times> 7\<close>
  convolution \<open>conv1\<close> without bias, \<open>bn1\<close>, \<open>relu\<close>, \<open>maxpool\<close>, four stages
  \<open>layer1..layer4\<close> of \<open>[3, 4, 6, 3]\<close> bottlenecks of widths \<open>64, 128, 256, 512\<close> whose
  first block has a \<open>downsample\<close> projection, \<open>avgpool\<close>, \<open>fc = Linear(2048, 1000)\<close>),
  with the sizes of its tensors given directly (\<open>tv_conv\<close>: \<open>[cout, cin, k, k]\<close>;
  \<open>tv_bn\<close>: the two affine parameters and three running buffers), independently of
  the repository's \<open>Bottleneck\<close> and \<open>_make_layer\<close>.  The lemmas then prove that the
  repository's stages register exactly the keys and sizes of torchvision's
  (\<open>bottleneck_keys_identity\<close>, \<open>bottleneck_keys_projection\<close>, \<open>make_layer_keys_tv\<close>),
  which is what the pretrained copy needs to succeed.
\<close>

definition tv_conv :: "nat \<Rightarrow> nat \<Rightarrow> nat \<Rightarrow> keyspec" where
  "tv_conv cin cout k = [(''weight'', [cout, cin, k, k])]"

definition tv_bn :: "nat \<Rightarrow> keyspec" where
  "tv_bn n = [(''weight'', [n]), (''bias'', [n]), (''running_mean'', [n]), (''running_var'', [n]),
              (''num_batches_tracked'', [])]"

definition tv_bottleneck_keys :: "nat \<Rightarrow> nat \<Rightarrow> bool \<Rightarrow> keyspec" where
  "tv_bottleneck_keys inplanes planes ds =
     module_keys
       ([(''conv1'', tv_conv inplanes planes 1), (''bn1'', tv_bn planes),
         (''conv2'', tv_conv planes planes 3), (''bn2'', tv_bn planes),
         (''conv3'', tv_conv planes (planes * 4) 1), (''bn3'', tv_bn (planes * 4)),
         (''relu'', [])] @
        (if ds then [(''downsample'', module_keys [(''0'', tv_conv inplanes (planes * 4) 1),
                                                   (''1'', tv_bn (planes * 4))])]
         else []))"

definition tv_layer_keys :: "nat \<Rightarrow> nat \<Rightarrow> nat \<Rightarrow> keyspec" where
  "tv_layer_keys inplanes planes blocks =
     module_keys
       ((''0'', tv_bottleneck_keys inplanes planes True) #
        map (\<lambda>i. (show_nat i, tv_bottleneck_keys (planes * 4) planes False)) [1..<blocks])"

definition resnet50_children :: "(string \<times> keyspec) list" where
  "resnet50_children =
     [(''conv1'', tv_conv 3 64 7), (''bn1'', tv_bn 64), (''relu'', []), (''maxpool'', []),
      (''layer1'', tv_layer_keys 64 64 3), (''layer2'', tv_layer_keys 256 128 4),
      (''layer3'', tv_layer_keys 512 256 6), (''layer4'', tv_layer_keys 1024 512 3),
      (''avgpool'', []), (''fc'', [(''weight'', [1000, 2048]), (''bias'', [1000])])]"

definition resnet50_keys :: keyspec where
  "resnet50_keys = module_keys resnet50_children"

lemma show_nat_0: "show_nat 0 = ''0''"
  by code_simp

lemma show_nat_1: "show_nat (Suc 0) = ''1''"
  by code_simp

text \<open>The repository's blocks register torchvision's keys, with torchvision's sizes.\<close>

lemma bottleneck_keys_identity:
  "bottleneck_keys (bottleneck_init inplanes planes s None) = tv_bottleneck_keys inplanes planes False"
  by (simp add: bottleneck_keys_def tv_bottleneck_keys_def bottleneck_init_def tv_conv_def tv_bn_def
        expansion_def)

lemma bottleneck_keys_projection:
  "bottleneck_keys (bottleneck_init inplanes planes s (Some (downsample_layers inplanes planes s))) =
   tv_bottleneck_keys inplanes planes True"
  by (simp add: bottleneck_keys_def tv_bottleneck_keys_def bottleneck_init_def downsample_layers_def
        seq_keys_def tv_conv_def tv_bn_def show_nat_0 show_nat_1 expansion_def)

lemma make_layer_keys_tv:
  "stride \<noteq> 1 \<or> inplanes \<noteq> planes * expansion \<Longrightarrow>
   seq_keys bottleneck_keys (fst (make_layer inplanes planes blocks stride)) =
   tv_layer_keys inplanes planes blocks"
  by (simp add: make_layer_def Let_def seq_keys_def tv_layer_keys_def enumerate_map_upt
        comp_def bottleneck_keys_identity bottleneck_keys_projection show_nat_0 expansion_def)

lemma distinct_tv_bottleneck_keys: "distinct (map fst (tv_bottleneck_keys inplanes planes ds))"
  unfolding tv_bottleneck_keys_def
  by (intro distinct_module_keys) (auto simp: tv_conv_def tv_bn_def module_keys_def prefix_keys_def)

lemma distinct_tv_layer_keys: "distinct (map fst (tv_layer_keys inplanes planes blocks))"
  unfolding tv_layer_keys_def
proof (rule distinct_module_keys)
  have "show_nat 0 \<notin> show_nat ` {1..<blocks}"
    by (auto simp: show_nat_inj)
  then have "''0'' \<notin> show_nat ` {1..<blocks}"
    by (metis show_nat_0)
  moreover have "inj_on show_nat {1..<blocks}"
    by (rule inj_onI) (simp add: show_nat_inj)
  ultimately show "distinct (map fst ((''0'', tv_bottleneck_keys inplanes planes True) #
      map (\<lambda>i. (show_nat i, tv_bottleneck_keys (planes * 4) planes False)) [1..<blocks]))"
    by (simp add: distinct_map comp_def)
  show "\<forall>(n, ks) \<in> set ((''0'', tv_bottleneck_keys inplanes planes True) #
      map (\<lambda>i. (show_nat i, tv_bottleneck_keys (planes * 4) planes False)) [1..<blocks]).
        CHR ''.'' \<notin> set n \<and> distinct (map fst ks)"
    by (auto simp: dot_not_in_show_nat distinct_tv_bottleneck_keys)
qed

lemma wf_resnet50_children: "wf_children resnet50_children"
  by (simp add: wf_children_def resnet50_children_def distinct_tv_layer_keys tv_conv_def tv_bn_def)

end
