(* ===== verification/Pretrained.thy ===== *)
theory Pretrained
  imports Stage1 Stage2 ResNet50_Layout
begin

text \<open>
  The state dictionaries of \<open>Stage1\<close> and \<open>Stage2\<close> and their constructors with the
  call of \<open>_copy_params\<close> (\<open>src/model/SRM_model.py\<close>, lines 49--65, 98--107, 112--125,
  156--164).  \<open>stage1_children\<close> and \<open>stage2_children\<close> list the attributes in the order
  \<open>__init__\<close> registers them, each with its own entries; \<open>ppm_keys\<close> does the same for
  \<open>PPM\<close>.  \<open>stage1_construct\<close> and \<open>stage2_construct\<close> are the whole \<open>__init__\<close>: the
  architecture of \<open>stage1_init\<close> / \<open>stage2_init\<close>, then the copy from the checkpoint into
  the module's freshly initialised state dictionary.  The lemmas show that with the
  ResNet-50 checkpoint the copy succeeds, the detail backbone keeps its initial values
  exactly in \<open>conv6\<close> and \<open>conv7\<close>, and the context backbone exactly in the four
  convolutions of the pyramid pooling module.
\<close>

definition stage1_children :: "stage1 \<Rightarrow> (string \<times> keyspec) list" where
  "stage1_children s =
     [(''conv1'', layer_keys (s1_conv1 s)), (''bn1'', layer_keys (s1_bn1 s)),
      (''relu'', layer_keys (s1_relu s)), (''maxpool'', layer_keys (s1_maxpool s)),
      (''layer1'', seq_keys bottleneck_keys (s1_layer1 s)),
      (''layer2'', seq_keys bottleneck_keys (s1_layer2 s)),
      (''layer3'', seq_keys bottleneck_keys (s1_layer3 s)),
      (''layer4'', seq_keys bottleneck_keys (s1_layer4 s)),
      (''conv6'', layer_keys (s1_conv6 s)), (''conv7'', layer_keys (s1_conv7 s))]"

definition ppm_keys :: "ppm \<Rightarrow> keyspec" where
  "ppm_keys p =
     module_keys
       [(''block1'', seq_keys layer_keys (ppm_block1 p)), (''block2'', seq_keys layer_keys (ppm_block2 p)),
        (''block3'', seq_keys layer_keys (ppm_block3 p)), (''block4'', seq_keys layer_keys (ppm_block4 p))]"

definition stage2_children :: "stage2 \<Rightarrow> (string \<times> keyspec) list" where
  "stage2_children s =
     [(''conv1'', layer_keys (s2_conv1 s)), (''bn1'', layer_keys (s2_bn1 s)),
      (''relu'', layer_keys (s2_relu s)), (''maxpool'', layer_keys (s2_maxpool s)),
      (''layer1'', seq_keys bottleneck_keys (s2_layer1 s)),
      (''layer2'', seq_keys bottleneck_keys (s2_layer2 s)),
      (''layer3'', seq_keys bottleneck_keys (s2_layer3 s)),
      (''ppm'', ppm_keys (s2_ppm s))]"

definition stage1_construct :: "nat list \<Rightarrow> (string \<Rightarrow> 'v) \<Rightarrow> 'v sdict \<Rightarrow> (stage1 \<times> 'v sdict) result" where
  "stage1_construct layers init pretrained_dict =
     rbind (stage1_init layers) (\<lambda>s.
     rbind (copy_params (sdict_of init (module_keys (stage1_children s))) pretrained_dict) (\<lambda>params.
     Inr (s, params)))"

definition stage2_construct :: "nat list \<Rightarrow> (string \<Rightarrow> 'v) \<Rightarrow> 'v sdict \<Rightarrow> (stage2 \<times> 'v sdict) result" where
  "stage2_construct layers init pretrained_dict =
     rbind (stage2_init layers) (\<lambda>s.
     rbind (copy_params (sdict_of init (module_keys (stage2_children s))) pretrained_dict) (\<lambda>params.
     Inr (s, params)))"

lemma ppm_init_keys:
  "ppm_keys ppm_init =
     [(''block1.1.weight'', [512, 1024, 1, 1]), (''block1.1.bias'', [512]),
      (''block2.1.weight'', [512, 1024, 1, 1]), (''block2.1.bias'', [512]),
      (''block3.1.weight'', [512, 1024, 1, 1]), (''block3.1.bias'', [512]),
      (''block4.1.weight'', [512, 1024, 1, 1]), (''block4.1.bias'', [512])]"
  by (simp add: ppm_keys_def ppm_init_def seq_keys_def module_keys_def prefix_keys_def show_nat_0 show_nat_1)

lemmas children_keys_distinct = distinct_layer_keys distinct_bottleneck_keys distinct_seq_keys
  distinct_tv_layer_keys

lemma stage1_copy:
  assumes s: "stage1_init [3, 4, 6, 3] = Inr s"
  shows "copy_params (sdict_of init (module_keys (stage1_children s))) (sdict_of ckpt resnet50_keys) =
           Inr (sdict_of (\<lambda>k. if k \<in> {''conv6.weight'', ''conv6.bias'', ''conv7.weight'', ''conv7.bias''}
                                 then init k else ckpt k) (module_keys (stage1_children s)))"
proof -
  define cs where "cs = take 8 resnet50_children"
  define hs where "hs = [(''conv6'', layer_keys (Conv2d 2048 256 3 1 1 True)),
                         (''conv7'', layer_keys (Conv2d 256 2 3 1 1 True))]"
  define ts where "ts = drop 8 resnet50_children"
  have r: "resnet50_children = cs @ ts"
    by (simp add: cs_def ts_def)
  have c: "stage1_children s = cs @ hs"
    using s by (simp add: stage1_init_eq stage1_children_def cs_def hs_def resnet50_children_def
                 make_layer_keys_tv tv_conv_def tv_bn_def expansion_def)
  have wh: "wf_children (cs @ hs)"
    by (simp add: cs_def hs_def resnet50_children_def wf_children_def children_keys_distinct
          tv_conv_def tv_bn_def)
  have wt: "wf_children (cs @ ts)"
    using wf_resnet50_children by (simp add: cs_def ts_def)
  have nm: "set (map fst hs) \<inter> set (map fst ts) = {}"
    by (simp add: hs_def ts_def resnet50_children_def)
  have k: "fst ` set (module_keys hs) = {''conv6.weight'', ''conv6.bias'', ''conv7.weight'', ''conv7.bias''}"
    by (simp add: hs_def module_keys_def prefix_keys_def)
  show ?thesis
    unfolding c resnet50_keys_def r copy_shared_children [OF wh wt nm] k ..
qed


lemma stage2_copy:
  assumes s: "stage2_init [3, 4, 6, 3] = Inr s"
  shows "copy_params (sdict_of init (module_keys (stage2_children s))) (sdict_of ckpt resnet50_keys) =
           Inr (sdict_of (\<lambda>k. if k \<in> {''ppm.block1.1.weight'', ''ppm.block1.1.bias'',
                                          ''ppm.block2.1.weight'', ''ppm.block2.1.bias'',
                                          ''ppm.block3.1.weight'', ''ppm.block3.1.bias'',
                                          ''ppm.block4.1.weight'', ''ppm.block4.1.bias''}
                                 then init k else ckpt k) (module_keys (stage2_children s)))"
proof -
  define cs where "cs = take 7 resnet50_children"
  define hs where "hs = [(''ppm'', ppm_keys ppm_init)]"
  define ts where "ts = drop 7 resnet50_children"
  have r: "resnet50_children = cs @ ts"
    by (simp add: cs_def ts_def)
  have c: "stage2_children s = cs @ hs"
    using s by (simp add: stage2_init_eq stage2_children_def cs_def hs_def resnet50_children_def
                 make_layer_keys_tv tv_conv_def tv_bn_def expansion_def)
  have wh: "wf_children (cs @ hs)"
    by (simp add: cs_def hs_def resnet50_children_def wf_children_def children_keys_distinct ppm_init_keys
          tv_conv_def tv_bn_def)
  have wt: "wf_children (cs @ ts)"
    using wf_resnet50_children by (simp add: cs_def ts_def)
  have nm: "set (map fst hs) \<inter> set (map fst ts) = {}"
    by (simp add: hs_def ts_def resnet50_children_def)
  have k: "fst ` set (module_keys hs) =
             {''ppm.block1.1.weight'', ''ppm.block1.1.bias'', ''ppm.block2.1.weight'', ''ppm.block2.1.bias'',
              ''ppm.block3.1.weight'', ''ppm.block3.1.bias'', ''ppm.block4.1.weight'', ''ppm.block4.1.bias''}"
    by (simp add: hs_def module_keys_def prefix_keys_def ppm_init_keys)
  show ?thesis
    unfolding c resnet50_keys_def r copy_shared_children [OF wh wt nm] k ..
qed


lemma stage1_construct_eq:
  "stage1_construct [3, 4, 6, 3] init (sdict_of ckpt resnet50_keys) = Inr (s, params) \<longleftrightarrow>
     stage1_init [3, 4, 6, 3] = Inr s \<and>
     params = sdict_of (\<lambda>k. if k \<in> {''conv6.weight'', ''conv6.bias'', ''conv7.weight'', ''conv7.bias''}
                              then init k else ckpt k) (module_keys (stage1_children s))"
  by (auto simp: stage1_construct_def stage1_copy)

lemma stage2_construct_eq:
  "stage2_construct [3, 4, 6, 3] init (sdict_of ckpt resnet50_keys) = Inr (s, params) \<longleftrightarrow>
     stage2_init [3, 4, 6, 3] = Inr s \<and>
     params = sdict_of (\<lambda>k. if k \<in> {''ppm.block1.1.weight'', ''ppm.block1.1.bias'',
                                       ''ppm.block2.1.weight'', ''ppm.block2.1.bias'',
                                       ''ppm.block3.1.weight'', ''ppm.block3.1.bias'',
                                       ''ppm.block4.1.weight'', ''ppm.block4.1.bias''}
                              then init k else ckpt k) (module_keys (stage2_children s))"
  by (auto simp: stage2_construct_def stage2_copy)

text \<open>
  C11.  Building \<open>Stage1(Bottleneck, [3, 4, 6, 3])\<close> with the ResNet-50 checkpoint
  succeeds; afterwards every entry of its state dictionary holds the checkpoint's value,
  except the four entries of \<open>conv6\<close> and \<open>conv7\<close>, which keep their initial values.
\<close>

theorem stage1_pretrained_load:
  "\<exists>s. stage1_init [3, 4, 6, 3] = Inr s \<and>
       stage1_construct [3, 4, 6, 3] init (sdict_of ckpt resnet50_keys) =
         Inr (s, sdict_of (\<lambda>k. if k \<in> {''conv6.weight'', ''conv6.bias'', ''conv7.weight'', ''conv7.bias''}
                                 then init k else ckpt k) (module_keys (stage1_children s)))"
  by (simp add: stage1_construct_eq stage1_init_eq)

text \<open>
  C12.  Building \<open>Stage2(Bottleneck, [3, 4, 6, 3])\<close> with the ResNet-50 checkpoint
  succeeds; afterwards every entry of its state dictionary holds the checkpoint's value,
  except the eight entries of the pyramid pooling module's convolutions, which keep their
  initial values.
\<close>

theorem stage2_pretrained_load:
  "\<exists>s. stage2_init [3, 4, 6, 3] = Inr s \<and>
       stage2_construct [3, 4, 6, 3] init (sdict_of ckpt resnet50_keys) =
         Inr (s, sdict_of (\<lambda>k. if k \<in> {''ppm.block1.1.weight'', ''ppm.block1.1.bias'',
                                          ''ppm.block2.1.weight'', ''ppm.block2.1.bias'',
                                          ''ppm.block3.1.weight'', ''ppm.block3.1.bias'',
                                          ''ppm.block4.1.weight'', ''ppm.block4.1.bias''}
                                 then init k else ckpt k) (module_keys (stage2_children s)))"
  by (simp add: stage2_construct_eq stage2_init_eq)

end
