(* ===== verification/Spec2Isabelle.thy ===== *)
theory Spec2Isabelle
  imports SRM_Net Pretrained
begin

text \<open>
  \<^bold>\<open>A shape-level model of the SRM network (src/model/SRM_model.py).\<close>

  \<^emph>\<open>The program.\<close>  One PyTorch module file defines a two-stream network for
  per-pixel prediction: \<open>Bottleneck\<close> (lines 8--44), the ResNet-50 residual unit;
  \<open>Stage1\<close> (47--107), a ResNet-50 backbone with a two-convolution head (the detail
  stream); \<open>Stage2\<close> (110--164), the same backbone cut after its third stage and
  followed by a \<open>PPM\<close> (167--201), the pyramid pooling module (the context stream);
  \<open>SRM\<close> (204--227), which runs both streams on the same input, resizes and
  concatenates their maps and returns two 2-channel predictions; and a
  \<open>__main__\<close> script (230--233) that builds the model and runs it on a
  \<open>1 \<times> 3 \<times> 384 \<times> 384\<close> tensor.  The components interact only by calls: each
  module's \<open>forward\<close> calls the \<open>forward\<close> of the modules it registered in its
  \<open>__init__\<close>; the only state written outside \<open>__init__\<close> is the parameters.

  \<^emph>\<open>What is modelled and how.\<close>  A tensor is abstracted to its NCHW shape
  (\<open>tshape\<close>), and every operation of the tensor engine to the shape it returns or
  the error it raises (\<open>Torch_Shapes\<close>: \<open>layer_shape\<close>, \<open>run_seq\<close>,
  \<open>interpolate_shape\<close>, \<open>cat_shape\<close>, \<open>add_inplace_shape\<close>, with the engine's
  output-size formula, its channel checks, the training-mode batch-norm check
  \<open>bn_ok\<close> and the broadcasting rule of the in-place \<open>+=\<close>).  Errors are values of the
  sum type \<open>error + 'a\<close> (\<open>SRM_Prelude\<close>), threaded by \<open>rbind\<close> in the order the
  source evaluates, so the model returns the first error the program raises.  Each class
  is a \<open>record\<close> of the layers its \<open>__init__\<close> registers and the attributes it
  writes, built by an \<open>*_init\<close> function, and its \<open>forward\<close> is an \<open>*_forward\<close>
  function:
  \<^item> \<open>Bottleneck\<close>: \<open>bottleneck_init\<close>, \<open>bottleneck_forward\<close>, and the invariant
    \<open>wf_bottleneck\<close> (the shortcut matches the main path);
  \<^item> \<open>Backbone\<close>: \<open>make_layer\<close> (\<open>_make_layer\<close>, returning the blocks and the new
    value of \<open>self.inplanes\<close>; \<open>Stage2._make_layer\<close> is the same text), \<open>run_blocks\<close>
    (\<open>nn.Sequential\<close> of blocks), the invariant \<open>wf_layer\<close>;
  \<^item> \<open>PPM\<close>: \<open>ppm_init\<close>, \<open>ppm_forward\<close>;
  \<^item> \<open>Stage1\<close>, \<open>Stage2\<close>: \<open>stage1_init\<close>/\<open>stage2_init\<close> (the constructor, which
    reads \<open>layers[i]\<close> with Python's \<open>IndexError\<close> and threads \<open>self.inplanes\<close>),
    \<open>stage1_forward\<close>/\<open>stage2_forward\<close>;
  \<^item> \<open>State_Dict\<close>: a tensor's state-dictionary entry (\<open>tensor\<close>: its size and an
    abstract value), a state dictionary as an association list in registration order
    (\<open>sdict\<close>), the dotted key names \<open>nn.Module.state_dict()\<close> produces
    (\<open>prefix_keys\<close>, \<open>module_keys\<close>, \<open>seq_keys\<close> with \<open>show_nat\<close> for the indices of an
    \<open>nn.Sequential\<close>, \<open>layer_keys\<close>, \<open>bottleneck_keys\<close>), the strict
    \<open>load_state_dict\<close>, \<open>copy_params\<close> (the body of \<open>_copy_params\<close>: the dict
    comprehension as \<open>filter\<close>, \<open>dict.update\<close> as a fold of \<open>AList.update\<close>) and the
    merge-then-load lemmas;
  \<^item> \<open>ResNet50_Layout\<close>: the layout of the checkpoint, torchvision's ResNet-50
    (\<open>resnet50_children\<close>, \<open>resnet50_keys\<close>), which is not code of this repository
    and is written out from torchvision's architecture with its tensor sizes
    (\<open>tv_conv\<close>, \<open>tv_bn\<close>, \<open>tv_bottleneck_keys\<close>, \<open>tv_layer_keys\<close>), independently of the
    repository's \<open>Bottleneck\<close> and \<open>_make_layer\<close>; its lemmas prove that the
    repository's stages register exactly torchvision's keys and sizes;
  \<^item> \<open>Pretrained\<close>: \<open>stage1_children\<close>/\<open>stage2_children\<close>/\<open>ppm_keys\<close> (the
    attributes each \<open>__init__\<close> registers, in order) and
    \<open>stage1_construct\<close>/\<open>stage2_construct\<close>, the whole constructors: the architecture,
    then \<open>_copy_params\<close> into the freshly initialised state dictionary;
  \<^item> \<open>SRM_Net\<close>: \<open>srm_init\<close>, \<open>srm_forward\<close>;
  \<^item> this theory: \<open>main_script\<close>, the \<open>__main__\<close> block (a new module is in training
    mode).

  \<^emph>\<open>What is proved.\<close>  C1: the model runs exactly on 3-channel inputs whose height and
  width both lie in \<open>369..384\<close>, in either mode and for every batch size, and then
  returns two \<open>B \<times> 2 \<times> 384 \<times> 384\<close> maps.  C2: on every other 3-channel input it
  raises, from the pyramid pooling module's \<open>24 \<times> 24\<close> average pool when a side is
  below 369 and from the \<open>torch.cat\<close> of that module when the sides are at least 369 but
  one is above 384.  C3: a well-formed bottleneck computes \<open>4 planes\<close> channels at
  \<open>down stride h\<close> (the ceiling of \<open>h / stride\<close>) exactly under \<open>block_pre\<close>.  C4:
  \<open>_make_layer\<close> builds \<open>max 1 blocks\<close> well-formed blocks, gives the first a projection
  shortcut exactly when its guard holds and the others none, and sets \<open>self.inplanes\<close>
  to \<open>4 planes\<close>.  C5: a stage of any depth computes the shape of one strided block.
  C6, C7: the pyramid pooling module's shape and its two error paths.  C8, C9: the
  shapes of the two backbones (\<open>1/32\<close> and \<open>1/16\<close> of the input, the second only at
  \<open>24 \<times> 24\<close>).  C10: the constructors raise \<open>IndexError\<close> exactly when the block-count
  list is too short.  C11, C12: with torchvision's ResNet-50 checkpoint both backbone
  constructors succeed (the repository's stages register torchvision's keys with
  torchvision's sizes), and afterwards every parameter and buffer holds the checkpoint's
  value except those of \<open>conv6\<close>/\<open>conv7\<close> (detail stream) and of the four
  pyramid-pooling convolutions (context stream), which keep their initial values.  C13:
  on dictionaries with distinct keys and agreeing sizes \<open>_copy_params\<close> gives every
  shared key the checkpoint's value and leaves every other entry unchanged, in the
  module's order.  C14: it can never fail on a missing or unexpected key.  C15: it fails
  on the first key, in the module's order, whose sizes differ.  The copy theorems rest on
  \<open>copy_shared_children\<close>: a module whose children are \<open>cs @ hs\<close> loaded from a checkpoint
  whose children are \<open>cs @ ts\<close> keeps its own values exactly under \<open>hs\<close>; the key
  arithmetic is that dotted names with dot-free prefixes are injective
  (\<open>dotted_eq\<close>) and that \<open>show_nat\<close> is injective (it has the inverse
  \<open>read_nat_acc 0\<close>).  Each component theory states its
  characterisation as "\<open>f x = Inr y \<longleftrightarrow> pre x \<and> y = post x\<close>", collected in
  \<open>shape_simps\<close>, so the composite modules' proofs are simplification over them; the
  arithmetic of strides is \<open>down\<close> with \<open>down a (down b h) = down (b * a) h\<close>.

  \<^emph>\<open>Findings.\<close>  The spec says the hard-coded sizes are valid only for a
  \<open>384 \<times> 384\<close> input and that other resolutions fail at a concatenation.  The code
  accepts every input with both sides in \<open>369..384\<close>, square or not, and returns
  \<open>384 \<times> 384\<close> maps that are then not at the input's resolution; and inputs with a
  side below 369 fail in an average pool, not in a concatenation.

  \<^emph>\<open>Not modelled, and the plan.\<close>  No loop of the program can diverge (the only loops
  are \<open>range(1, blocks)\<close> and the structural recursion over layer lists), so no fuel
  is needed.  Numerical values of tensors, the parameters, batch-norm statistics and
  autograd are abstracted away: a parameter's value is an element of an arbitrary type,
  and a freshly built module's values are a function \<open>init\<close> of the key.  The checkpoint
  is the state dictionary of the ResNet-50 layout with values a function \<open>ckpt\<close> of the
  key; downloading it (\<open>pretrained=True\<close>) is I/O and is not modelled.  Next in the
  plan: a value-level semantics of the parameter-free operations (ReLU, the residual
  addition, concatenation, average pooling and the \<open>align_corners\<close> bilinear resize)
  refining the shape semantics, with which the independence of \<open>output1\<close>'s values
  from the context stream (spec section 8) could be stated; the shape model cannot
  express it.  The \<open>__main__\<close> block is modelled (\<open>main_script\<close>) but carries no
  property of its own: on shapes it is the instance of C1 at \<open>1 \<times> 3 \<times> 384 \<times> 384\<close>.
\<close>

definition main_script :: "(tshape \<times> tshape) result" where
  "main_script =
     (let imgs = \<lparr>batch = 1, chans = 3, height = 384, width = 384\<rparr>
      in rbind srm_init (\<lambda>model. srm_forward Train model imgs))"

lemma pos_down16_eq_24: "(0 < h \<and> down 16 h = 24) \<longleftrightarrow> (368 < h \<and> h \<le> 384)"
  by (cases "h = 0") (auto simp: down16_eq_24 down_def)

text \<open>
  C1.  Building the model and running it on an input succeeds exactly when the input has
  3 channels and both spatial sides lie in \<open>369..384\<close> (for any batch size and in
  either mode); both outputs then have shape \<open>B \<times> 2 \<times> 384 \<times> 384\<close>.
\<close>

theorem srm_end_to_end_shape:
  "rbind srm_init (\<lambda>m. srm_forward md m x) = Inr (o1, o2) \<longleftrightarrow>
     chans x = 3 \<and> 368 < height x \<and> height x \<le> 384 \<and> 368 < width x \<and> width x \<le> 384 \<and>
     o1 = \<lparr>batch = batch x, chans = 2, height = 384, width = 384\<rparr> \<and>
     o2 = \<lparr>batch = batch x, chans = 2, height = 384, width = 384\<rparr>"
proof -
  obtain m where m: "srm_init = Inr m" using srm_init_Inr by blast
  have "srm_forward md m x = Inr (o1, o2) \<longleftrightarrow>
          chans x = 3 \<and> (0 < height x \<and> down 16 (height x) = 24) \<and>
          (0 < width x \<and> down 16 (width x) = 24) \<and>
          o1 = \<lparr>batch = batch x, chans = 2, height = 384, width = 384\<rparr> \<and>
          o2 = \<lparr>batch = batch x, chans = 2, height = 384, width = 384\<rparr>"
    by (auto simp: srm_shape [OF m])
  then show ?thesis by (simp add: m pos_down16_eq_24)
qed

theorem srm_end_to_end_shape_witness:
  "rbind srm_init (\<lambda>m. srm_forward Eval m \<lparr>batch = 2, chans = 3, height = 370, width = 384\<rparr>) =
   Inr (\<lparr>batch = 2, chans = 2, height = 384, width = 384\<rparr>,
        \<lparr>batch = 2, chans = 2, height = 384, width = 384\<rparr>)"
  using srm_end_to_end_shape [of Eval "\<lparr>batch = 2, chans = 3, height = 370, width = 384\<rparr>"] by simp

text \<open>
  C2.  On a 3-channel input on which the detail stream runs (always in evaluation mode),
  a side below 369 makes the model raise the average pool's \<open>OutputSizeTooSmall\<close>,
  and sides of at least 369 with one above 384 make it raise a \<open>torch.cat\<close> size
  mismatch.
\<close>

theorem srm_end_to_end_errors:
  assumes x: "chans x = 3" "0 < height x" "0 < width x"
    "bn_ok md (batch x) (down 32 (height x)) (down 32 (width x))"
  shows "(height x \<le> 368 \<or> width x \<le> 368 \<longrightarrow>
            rbind srm_init (\<lambda>m. srm_forward md m x) = Inl OutputSizeTooSmall) \<and>
         (368 < height x \<and> 368 < width x \<and> (384 < height x \<or> 384 < width x) \<longrightarrow>
            rbind srm_init (\<lambda>m. srm_forward md m x) = Inl CatSizeMismatch)"
proof -
  obtain m where m: "srm_init = Inr m" using srm_init_Inr by blast
  let ?y = "\<lparr>batch = batch x, chans = 1024, height = down 16 (height x), width = down 16 (width x)\<rparr>"
  have small: "ppm_forward md ppm_init ?y = Inl OutputSizeTooSmall"
    if "height x \<le> 368 \<or> width x \<le> 368"
    using that x by (intro ppm_small_error) (auto simp: down16_lt_24)
  have large: "ppm_forward md ppm_init ?y = Inl CatSizeMismatch"
    if "368 < height x" "368 < width x" "384 < height x \<or> 384 < width x"
  proof (rule ppm_large_error)
    show "24 \<le> height ?y" "24 \<le> width ?y"
      using that x down16_lt_24 [of "height x"] down16_lt_24 [of "width x"] by simp_all
    show "height ?y \<noteq> 24 \<or> width ?y \<noteq> 24"
      using that x down16_gt_24 [of "height x"] down16_gt_24 [of "width x"] by auto
  qed simp
  have run: "rbind srm_init (\<lambda>m. srm_forward md m x) = srm_forward md m x"
    by (simp add: m)
  show ?thesis
  proof (intro conjI impI)
    assume "height x \<le> 368 \<or> width x \<le> 368"
    then show "rbind srm_init (\<lambda>m. srm_forward md m x) = Inl OutputSizeTooSmall"
      unfolding run by (rule srm_forward_ppm_error [OF m x small])
  next
    assume "368 < height x \<and> 368 < width x \<and> (384 < height x \<or> 384 < width x)"
    then show "rbind srm_init (\<lambda>m. srm_forward md m x) = Inl CatSizeMismatch"
      unfolding run by (intro srm_forward_ppm_error [OF m x large]) simp_all
  qed
qed

theorem srm_end_to_end_errors_witness:
  "rbind srm_init (\<lambda>m. srm_forward Eval m \<lparr>batch = 1, chans = 3, height = 300, width = 384\<rparr>) =
     Inl OutputSizeTooSmall \<and>
   rbind srm_init (\<lambda>m. srm_forward Eval m \<lparr>batch = 1, chans = 3, height = 400, width = 384\<rparr>) =
     Inl CatSizeMismatch"
  using srm_end_to_end_errors [of "\<lparr>batch = 1, chans = 3, height = 300, width = 384\<rparr>" Eval]
    srm_end_to_end_errors [of "\<lparr>batch = 1, chans = 3, height = 400, width = 384\<rparr>" Eval]
  by (simp add: bn_ok_def)

text \<open>
  C10.  The backbone constructors index the block-count list: \<open>Stage1\<close> raises
  \<open>IndexError\<close> exactly on lists shorter than 4, \<open>Stage2\<close> exactly on lists shorter
  than 3 (it never reads \<open>layers[3]\<close>).
\<close>

theorem backbone_init_index_errors:
  "(stage1_init layers = Inl IndexError \<longleftrightarrow> length layers < 4) \<and>
   (stage2_init layers = Inl IndexError \<longleftrightarrow> length layers < 3)"
proof -
  have "3 < length layers \<Longrightarrow> \<exists>s. stage1_init layers = Inr s"
    by (simp add: stage1_init_eq)
  moreover have "2 < length layers \<Longrightarrow> \<exists>s. stage2_init layers = Inr s"
    by (simp add: stage2_init_eq)
  ultimately show ?thesis
    using stage1_init_error [of layers] stage2_init_error [of layers] by force
qed

theorem backbone_init_index_errors_witness:
  "stage1_init [3, 4, 6] = Inl IndexError \<and> stage2_init [3, 4, 6] \<noteq> Inl IndexError"
  using backbone_init_index_errors [of "[3, 4, 6]"] by simp

end
